theory Spec2Isabelle
  imports Complex_Main
begin

section \<open>Potential duplication checks of the NIRSpec MAST query notebook\<close>

text \<open>
  The development embeds the cells of the section "Potential Duplication Checks" of
  \<^verbatim>\<open>notebooks/NIRSpec_MAST_Query/NIRSpec_MAST_Query.ipynb\<close>: the search radii, the two
  aperture dictionaries, the input catalog, the loop that fills the dictionary
  \<^verbatim>\<open>table\<close> with the answers of \<^verbatim>\<open>Observations.query_criteria\<close>, and the two loops that
  collect \<^verbatim>\<open>proposal_ids\<close> and \<^verbatim>\<open>obs_ids\<close>.

  Conventions of the embedding:
  \<^item> Python floats are modelled as real numbers with exact arithmetic;
  \<^item> a Python string is a \<^typ>\<open>string\<close>, one \<^typ>\<open>char\<close> per code point below 256;
  \<^item> a Python exception is a value \<open>Inl e\<close> of a sum type and ends the run;
  \<^item> the archive service is a parameter: \<open>svc k q\<close> is the table it returns to the
    query \<open>q\<close> when \<open>k\<close> queries were issued before it in the run;
  \<^item> the queries issued are recorded, in order, in a list that is threaded through the
    loop;
  \<^item> the cells are embedded twice: as functions from their inputs to their results, and
    as transformers of a state that holds the notebook's variables and its output.
\<close>

subsection \<open>Exceptions\<close>

text \<open>
  \<open>KeyError\<close> is raised by a dictionary lookup with a missing key (for the two aperture
  dictionaries this is the configuration error of an unknown aperture), \<open>ValueError\<close>
  by \<^verbatim>\<open>int\<close> on a string that is not an integer literal.
\<close>

datatype error = KeyError | ValueError

subsection \<open>Search radii and aperture dictionaries\<close>

definition mos_radius :: real where
  "mos_radius = 180 / 360"

definition mos_slit_radius :: real where
  "mos_slit_radius = 0.46 / 360"

definition ifu_radius :: real where
  "ifu_radius = 3 / 360"

definition fs_S1600A1_radius :: real where
  "fs_S1600A1_radius = 1.6 / 360"

definition fs_S200A1_radius :: real where
  "fs_S200A1_radius = 3.3 / 360"

definition fs_S200A2_radius :: real where
  "fs_S200A2_radius = 3.3 / 360"

definition fs_S400A1_radius :: real where
  "fs_S400A1_radius = 3.8 / 360"

definition fs_S200B1_radius :: real where
  "fs_S200B1_radius = 3.3 / 360"

definition search_area :: "string \<rightharpoonup> real" where
  "search_area = map_of
     [(''MSA'', mos_radius), (''IFU'', ifu_radius), (''S1600A1'', fs_S1600A1_radius),
      (''S200A1'', fs_S200A1_radius), (''S200A2'', fs_S200A2_radius),
      (''S400A1'', fs_S400A1_radius), (''S200B1'', fs_S200B1_radius)]"

definition instrument_name :: "string \<rightharpoonup> string" where
  "instrument_name = map_of
     [(''MSA'', ''NIRSPEC/MSA''), (''IFU'', ''NIRSPEC/IFU''), (''S1600A1'', ''NIRSPEC/SLIT''),
      (''S200A1'', ''NIRSPEC/SLIT''), (''S200A2'', ''NIRSPEC/SLIT''),
      (''S400A1'', ''NIRSPEC/SLIT''), (''S200B1'', ''NIRSPEC/SLIT'')]"

subsection \<open>The input catalog\<close>

text \<open>
  A \<open>catalog_entry\<close> holds the variables \<^verbatim>\<open>targetN_number\<close>, \<^verbatim>\<open>targetN_aperture\<close>, ...
  that the notebook assigns for one target; a \<open>target\<close> is the dictionary built from
  them, with the keys \<^verbatim>\<open>'search_area'\<close> and \<^verbatim>\<open>'instrument_name'\<close> looked up in the two
  aperture dictionaries.
\<close>

record catalog_entry =
  entry_number :: string
  entry_aperture :: string
  entry_RA :: real
  entry_DEC :: real
  entry_grating :: string
  entry_filters :: string
  entry_exposure_time :: real

record target =
  number :: string
  RA :: real
  DEC :: real
  grating :: string
  filters :: string
  exposure_time :: real
  target_search_area :: real
  target_instrument_name :: string

definition make_target :: "catalog_entry \<Rightarrow> error + target" where
  "make_target e =
     (case search_area (entry_aperture e) of
        None \<Rightarrow> Inl KeyError
      | Some area \<Rightarrow>
          (case instrument_name (entry_aperture e) of
             None \<Rightarrow> Inl KeyError
           | Some name \<Rightarrow>
               Inr \<lparr>number = entry_number e, RA = entry_RA e, DEC = entry_DEC e,
                    grating = entry_grating e, filters = entry_filters e,
                    exposure_time = entry_exposure_time e,
                    target_search_area = area, target_instrument_name = name\<rparr>))"

fun make_catalog :: "catalog_entry list \<Rightarrow> error + target list" where
  "make_catalog [] = Inr []"
| "make_catalog (e # es) =
     (case make_target e of
        Inl err \<Rightarrow> Inl err
      | Inr t \<Rightarrow>
          (case make_catalog es of
             Inl err \<Rightarrow> Inl err
           | Inr ts \<Rightarrow> Inr (t # ts)))"

definition target1 :: catalog_entry where
  "target1 = \<lparr>entry_number = ''1'', entry_aperture = ''MSA'', entry_RA = 53.13,
     entry_DEC = - 27.8, entry_grating = ''G395H'', entry_filters = ''F290LP'',
     entry_exposure_time = 950\<rparr>"

definition target2 :: catalog_entry where
  "target2 = \<lparr>entry_number = ''2'', entry_aperture = ''IFU'', entry_RA = 68.73091,
     entry_DEC = 24.48140, entry_grating = ''G395H'', entry_filters = ''F290LP'',
     entry_exposure_time = 22.749\<rparr>"

definition target3 :: catalog_entry where
  "target3 = \<lparr>entry_number = ''3'', entry_aperture = ''S200B1'', entry_RA = 5.130,
     entry_DEC = - 36.895, entry_grating = ''G140H'', entry_filters = ''F070LP'',
     entry_exposure_time = 1880.22\<rparr>"

definition input_catalog :: "catalog_entry list" where
  "input_catalog = [target1, target2, target3]"

subsection \<open>Queries, rows and the archive service\<close>

text \<open>
  A \<open>criteria\<close> record holds the keyword arguments of one call of
  \<^verbatim>\<open>Observations.query_criteria\<close>; a two-element list \<^verbatim>\<open>[lo, hi]\<close> is a pair. An
  \<open>archive_row\<close> is one row of the returned table: the two columns the notebook reads,
  and the columns the criteria constrain.
\<close>

record criteria =
  q_instrument_name :: string
  q_s_ra :: "real \<times> real"
  q_s_dec :: "real \<times> real"
  q_grating :: string
  q_filters :: string
  q_t_exptime :: "real \<times> real"

record archive_row =
  proposal_id :: string
  obsid :: string
  row_s_ra :: real
  row_s_dec :: real
  row_grating :: string
  row_filters :: string
  row_t_exptime :: real

type_synonym service = "nat \<Rightarrow> criteria \<Rightarrow> archive_row list"

type_synonym obs_table = "string \<rightharpoonup> archive_row list"

definition query_criteria ::
  "service \<Rightarrow> criteria list \<Rightarrow> criteria \<Rightarrow> archive_row list \<times> criteria list" where
  "query_criteria svc issued q = (svc (length issued) q, issued @ [q])"

text \<open>
  The assumption on the external service that the bounds on surfaced rows rest on: a row
  returned for a query lies in its two ranges, has its grating and its filter, and an
  exposure time in its range.
\<close>

definition honors :: "criteria \<Rightarrow> archive_row \<Rightarrow> bool" where
  "honors q r \<longleftrightarrow>
     fst (q_s_ra q) \<le> row_s_ra r \<and> row_s_ra r \<le> snd (q_s_ra q) \<and>
     fst (q_s_dec q) \<le> row_s_dec r \<and> row_s_dec r \<le> snd (q_s_dec q) \<and>
     row_grating r = q_grating q \<and> row_filters r = q_filters q \<and>
     fst (q_t_exptime q) \<le> row_t_exptime r \<and> row_t_exptime r \<le> snd (q_t_exptime q)"

subsection \<open>The dictionary of observation tables\<close>

text \<open>
  One iteration of the loop over \<^verbatim>\<open>input_catalog\<close>: the query for the target, stored
  under its number, and for a target that is not \<^verbatim>\<open>"NIRSPEC/MSA"\<close> the query for MOS
  data, stored under the number followed by \<^verbatim>\<open>"MOS"\<close>.
\<close>

definition table_body ::
  "service \<Rightarrow> target \<Rightarrow> obs_table \<times> criteria list \<Rightarrow> obs_table \<times> criteria list" where
  "table_body svc t st =
     (let (table, issued) = st;
          key = number t;
          (rows, issued1) = query_criteria svc issued
            \<lparr>q_instrument_name = target_instrument_name t,
             q_s_ra = (RA t - target_search_area t, RA t + target_search_area t),
             q_s_dec = (DEC t - target_search_area t, DEC t + target_search_area t),
             q_grating = grating t,
             q_filters = filters t,
             q_t_exptime = (exposure_time t / 4, exposure_time t * 4)\<rparr>;
          table1 = table(key \<mapsto> rows)
      in if target_instrument_name t \<noteq> ''NIRSPEC/MSA''
         then (let (rows2, issued2) = query_criteria svc issued1
                 \<lparr>q_instrument_name = ''NIRSPEC/MSA'',
                  q_s_ra = (RA t - target_search_area t, RA t + target_search_area t),
                  q_s_dec = (DEC t - target_search_area t, DEC t + target_search_area t),
                  q_grating = grating t,
                  q_filters = filters t,
                  q_t_exptime = (exposure_time t / 4, exposure_time t * 4)\<rparr>
               in (table1(key @ ''MOS'' \<mapsto> rows2), issued2))
         else (table1, issued1))"

fun table_loop ::
  "service \<Rightarrow> target list \<Rightarrow> obs_table \<times> criteria list \<Rightarrow> obs_table \<times> criteria list" where
  "table_loop svc [] st = st"
| "table_loop svc (t # ts) st = table_loop svc ts (table_body svc t st)"

subsection \<open>Integer conversion\<close>

text \<open>
  \<^verbatim>\<open>int(s)\<close> for a string \<open>s\<close> in base 10, as CPython 3.9 (the notebook's kernel) parses
  it: white space around the literal is skipped, one sign may precede the digits, no
  space may follow the sign, and single underscores may separate digits. Everything
  else raises \<open>ValueError\<close>. The white space skipped is the tab, the line feed, the
  vertical tab, the form feed, the carriage return and the space, and of the code points
  from 127 on the next-line character U+0085 and the no-break space U+00A0; the
  separators U+001C to U+001F are not skipped.
\<close>

definition is_space :: "char \<Rightarrow> bool" where
  "is_space c \<longleftrightarrow> (of_char c :: nat) \<in> {9, 10, 11, 12, 13, 32, 133, 160}"

definition is_digit :: "char \<Rightarrow> bool" where
  "is_digit c \<longleftrightarrow> 48 \<le> (of_char c :: nat) \<and> (of_char c :: nat) \<le> 57"

definition digit_value :: "char \<Rightarrow> nat" where
  "digit_value c = of_char c - 48"

fun well_grouped :: "string \<Rightarrow> bool" where
  "well_grouped [] = False"
| "well_grouped [c] = is_digit c"
| "well_grouped (c # d # cs) =
     (if is_digit c then well_grouped (d # cs)
      else c = CHR ''_'' \<and> is_digit d \<and> well_grouped (d # cs))"

definition literal_value :: "string \<Rightarrow> nat" where
  "literal_value body = foldl (\<lambda>n c. 10 * n + digit_value c) 0 (filter is_digit body)"

definition py_int :: "string \<Rightarrow> error + int" where
  "py_int s =
     (let s1 = dropWhile is_space s;
          (sign, s2) = (case s1 of
                          c # cs \<Rightarrow> if c = CHR ''+'' then (1, cs)
                                    else if c = CHR ''-'' then (- 1, cs)
                                    else (1, s1)
                        | [] \<Rightarrow> (1, s1));
          body = takeWhile (\<lambda>c. is_digit c \<or> c = CHR ''_'') s2;
          rest = dropWhile (\<lambda>c. is_digit c \<or> c = CHR ''_'') s2
      in if body \<noteq> [] \<and> is_digit (hd body) \<and> well_grouped body
            \<and> dropWhile is_space rest = []
         then Inr (sign * int (literal_value body))
         else Inl ValueError)"

subsection \<open>Proposal IDs and product group IDs\<close>

text \<open>
  The inner loops run over one column of a stored table, the outer loops over the
  catalog; \<^verbatim>\<open>table[target['number']]\<close> raises \<open>KeyError\<close> for a missing key.
\<close>

fun proposal_ids_rows :: "archive_row list \<Rightarrow> int list \<Rightarrow> error + int list" where
  "proposal_ids_rows [] proposal_ids = Inr proposal_ids"
| "proposal_ids_rows (r # rs) proposal_ids =
     (case py_int (proposal_id r) of
        Inl err \<Rightarrow> Inl err
      | Inr n \<Rightarrow>
          proposal_ids_rows rs
            (if n \<notin> set proposal_ids then proposal_ids @ [n] else proposal_ids))"

fun proposal_ids_loop :: "obs_table \<Rightarrow> target list \<Rightarrow> int list \<Rightarrow> error + int list" where
  "proposal_ids_loop table [] proposal_ids = Inr proposal_ids"
| "proposal_ids_loop table (t # ts) proposal_ids =
     (case table (number t) of
        None \<Rightarrow> Inl KeyError
      | Some rows \<Rightarrow>
          (case proposal_ids_rows rows proposal_ids of
             Inl err \<Rightarrow> Inl err
           | Inr proposal_ids' \<Rightarrow> proposal_ids_loop table ts proposal_ids'))"

fun obs_ids_rows :: "archive_row list \<Rightarrow> string list \<Rightarrow> string list" where
  "obs_ids_rows [] obs_ids = obs_ids"
| "obs_ids_rows (r # rs) obs_ids =
     obs_ids_rows rs (if obsid r \<notin> set obs_ids then obs_ids @ [obsid r] else obs_ids)"

fun obs_ids_loop :: "obs_table \<Rightarrow> target list \<Rightarrow> string list \<Rightarrow> error + string list" where
  "obs_ids_loop table [] obs_ids = Inr obs_ids"
| "obs_ids_loop table (t # ts) obs_ids =
     (case table (number t) of
        None \<Rightarrow> Inl KeyError
      | Some rows \<Rightarrow> obs_ids_loop table ts (obs_ids_rows rows obs_ids))"

subsection \<open>The whole check\<close>

text \<open>
  The cells in order: the catalog, the dictionary of tables, the proposal IDs, the
  product group IDs. The result is the list of the queries issued, and the exception
  that ended the run or the three variables the cells leave behind.
\<close>

record report =
  table :: obs_table
  proposal_ids :: "int list"
  obs_ids :: "string list"

definition duplication_checks ::
  "service \<Rightarrow> catalog_entry list \<Rightarrow> criteria list \<times> (error + report)" where
  "duplication_checks svc entries =
     (case make_catalog entries of
        Inl err \<Rightarrow> ([], Inl err)
      | Inr catalog \<Rightarrow>
          (let (tab, issued) = table_loop svc catalog (Map.empty, [])
           in case proposal_ids_loop tab catalog [] of
                Inl err \<Rightarrow> (issued, Inl err)
              | Inr pids \<Rightarrow>
                  (case obs_ids_loop tab catalog [] of
                     Inl err \<Rightarrow> (issued, Inl err)
                   | Inr oids \<Rightarrow>
                       (issued, Inr \<lparr>table = tab, proposal_ids = pids, obs_ids = oids\<rparr>))))"

subsection \<open>The cells as transformers of the notebook's state\<close>

text \<open>
  What a \<^verbatim>\<open>print\<close> call of the three cells writes: the heading with the target's
  number, the first five rows of a table, an empty line, the line with the proposal
  IDs, and the line with the first ten product group IDs.
\<close>

datatype printed =
    Heading string
  | Rows "archive_row list"
  | Blank
  | Proposal_line "int list"
  | Product_line "string list"

text \<open>
  The state of the notebook: the seven variables the three cells assign, the output
  written so far, the queries sent to the archive so far, and everything else
  (\<open>other_state\<close>: the other variables of the notebook, among them \<^verbatim>\<open>input_catalog\<close>
  and the aperture dictionaries). The cells assign each of the seven variables before
  they read it, so the value a field holds before the run stands for whatever the
  variable was bound to then, or for its being unbound.
\<close>

record 'a notebook =
  var_table :: obs_table
  var_target :: target
  var_key :: string
  var_proposal_ids :: "int list"
  var_proposal_id :: string
  var_obs_ids :: "string list"
  var_obs_id :: string
  stdout :: "printed list"
  archive_calls :: "criteria list"
  other_state :: 'a

definition py_print :: "printed \<Rightarrow> 'a notebook \<Rightarrow> 'a notebook" where
  "py_print x w = w\<lparr>stdout := stdout w @ [x]\<rparr>"

text \<open>
  The cell that fills \<^verbatim>\<open>table\<close>. One iteration binds \<^verbatim>\<open>target\<close> and \<^verbatim>\<open>key\<close>, issues
  the queries and stores their answers as \<open>table_body\<close> does, and prints the heading,
  \<^verbatim>\<open>table[key][:5]\<close> and an empty line.
\<close>

definition table_cell_body ::
  "service \<Rightarrow> target \<Rightarrow> 'a notebook \<Rightarrow> error option \<times> 'a notebook" where
  "table_cell_body svc t w =
     (let w1 = w\<lparr>var_target := t\<rparr>;
          w2 = w1\<lparr>var_key := number (var_target w1)\<rparr>;
          (tab, calls) = table_body svc (var_target w2) (var_table w2, archive_calls w2);
          w3 = w2\<lparr>var_table := tab, archive_calls := calls\<rparr>;
          w4 = py_print (Heading (var_key w3)) w3
      in case var_table w4 (var_key w4) of
           None \<Rightarrow> (Some KeyError, w4)
         | Some rows \<Rightarrow> (None, py_print Blank (py_print (Rows (take 5 rows)) w4)))"

fun table_cell_loop ::
  "service \<Rightarrow> target list \<Rightarrow> 'a notebook \<Rightarrow> error option \<times> 'a notebook" where
  "table_cell_loop svc [] w = (None, w)"
| "table_cell_loop svc (t # ts) w =
     (case table_cell_body svc t w of
        (Some err, w') \<Rightarrow> (Some err, w')
      | (None, w') \<Rightarrow> table_cell_loop svc ts w')"

definition table_cell ::
  "service \<Rightarrow> target list \<Rightarrow> 'a notebook \<Rightarrow> error option \<times> 'a notebook" where
  "table_cell svc catalog w = table_cell_loop svc catalog (w\<lparr>var_table := Map.empty\<rparr>)"

text \<open>The cell that collects the proposal IDs and prints them.\<close>

fun proposal_cell_rows ::
  "archive_row list \<Rightarrow> 'a notebook \<Rightarrow> error option \<times> 'a notebook" where
  "proposal_cell_rows [] w = (None, w)"
| "proposal_cell_rows (r # rs) w =
     (let w1 = w\<lparr>var_proposal_id := proposal_id r\<rparr>
      in case py_int (var_proposal_id w1) of
           Inl err \<Rightarrow> (Some err, w1)
         | Inr n \<Rightarrow>
             proposal_cell_rows rs
               (if n \<notin> set (var_proposal_ids w1)
                then w1\<lparr>var_proposal_ids := var_proposal_ids w1 @ [n]\<rparr> else w1))"

fun proposal_cell_loop ::
  "target list \<Rightarrow> 'a notebook \<Rightarrow> error option \<times> 'a notebook" where
  "proposal_cell_loop [] w = (None, w)"
| "proposal_cell_loop (t # ts) w =
     (let w1 = w\<lparr>var_target := t\<rparr>
      in case var_table w1 (number (var_target w1)) of
           None \<Rightarrow> (Some KeyError, w1)
         | Some rows \<Rightarrow>
             (case proposal_cell_rows rows w1 of
                (Some err, w2) \<Rightarrow> (Some err, w2)
              | (None, w2) \<Rightarrow> proposal_cell_loop ts w2))"

definition proposal_cell :: "target list \<Rightarrow> 'a notebook \<Rightarrow> error option \<times> 'a notebook" where
  "proposal_cell catalog w =
     (case proposal_cell_loop catalog (w\<lparr>var_proposal_ids := []\<rparr>) of
        (Some err, w') \<Rightarrow> (Some err, w')
      | (None, w') \<Rightarrow> (None, py_print (Proposal_line (var_proposal_ids w')) w'))"

text \<open>The cell that collects the product group IDs and prints the first ten.\<close>

fun obs_cell_rows :: "archive_row list \<Rightarrow> 'a notebook \<Rightarrow> 'a notebook" where
  "obs_cell_rows [] w = w"
| "obs_cell_rows (r # rs) w =
     (let w1 = w\<lparr>var_obs_id := obsid r\<rparr>
      in obs_cell_rows rs
           (if var_obs_id w1 \<notin> set (var_obs_ids w1)
            then w1\<lparr>var_obs_ids := var_obs_ids w1 @ [var_obs_id w1]\<rparr> else w1))"

fun obs_cell_loop :: "target list \<Rightarrow> 'a notebook \<Rightarrow> error option \<times> 'a notebook" where
  "obs_cell_loop [] w = (None, w)"
| "obs_cell_loop (t # ts) w =
     (let w1 = w\<lparr>var_target := t\<rparr>
      in case var_table w1 (number (var_target w1)) of
           None \<Rightarrow> (Some KeyError, w1)
         | Some rows \<Rightarrow> obs_cell_loop ts (obs_cell_rows rows w1))"

definition obs_cell :: "target list \<Rightarrow> 'a notebook \<Rightarrow> error option \<times> 'a notebook" where
  "obs_cell catalog w =
     (case obs_cell_loop catalog (w\<lparr>var_obs_ids := []\<rparr>) of
        (Some err, w') \<Rightarrow> (Some err, w')
      | (None, w') \<Rightarrow> (None, py_print (Product_line (take 10 (var_obs_ids w'))) w'))"

text \<open>
  The three cells in order; an exception ends the run and leaves the state as it was
  when it was raised.
\<close>

definition run_cells ::
  "service \<Rightarrow> target list \<Rightarrow> 'a notebook \<Rightarrow> error option \<times> 'a notebook" where
  "run_cells svc catalog w =
     (case table_cell svc catalog w of
        (Some err, w1) \<Rightarrow> (Some err, w1)
      | (None, w1) \<Rightarrow>
          (case proposal_cell catalog w1 of
             (Some err, w2) \<Rightarrow> (Some err, w2)
           | (None, w2) \<Rightarrow> obs_cell catalog w2))"

subsection \<open>Notions used to state the properties\<close>

text \<open>
  The keyword arguments of the first query of a target, and the queries one iteration of
  the loop issues, in order.
\<close>

definition target_criteria :: "target \<Rightarrow> criteria" where
  "target_criteria t =
     \<lparr>q_instrument_name = target_instrument_name t,
      q_s_ra = (RA t - target_search_area t, RA t + target_search_area t),
      q_s_dec = (DEC t - target_search_area t, DEC t + target_search_area t),
      q_grating = grating t,
      q_filters = filters t,
      q_t_exptime = (exposure_time t / 4, exposure_time t * 4)\<rparr>"

definition target_queries :: "target \<Rightarrow> criteria list" where
  "target_queries t =
     (if target_instrument_name t = ''NIRSPEC/MSA'' then [target_criteria t]
      else [target_criteria t, (target_criteria t)\<lparr>q_instrument_name := ''NIRSPEC/MSA''\<rparr>])"

text \<open>The keys of \<^verbatim>\<open>table\<close> that the iteration of the loop for a target assigns.\<close>

definition target_keys :: "target \<Rightarrow> string list" where
  "target_keys t =
     (if target_instrument_name t = ''NIRSPEC/MSA'' then [number t]
      else [number t, number t @ ''MOS''])"

text \<open>
  A list without its repetitions, every element at the place of its first occurrence.
\<close>

primrec first_occurrence_order :: "'a list \<Rightarrow> 'a list" where
  "first_occurrence_order [] = []"
| "first_occurrence_order (x # xs) = x # filter (\<lambda>y. y \<noteq> x) (first_occurrence_order xs)"

text \<open>
  The rows stored under the numbers of the targets of a catalog, in catalog order.
\<close>

definition own_rows :: "obs_table \<Rightarrow> target list \<Rightarrow> archive_row list" where
  "own_rows tab ts =
     concat (map (\<lambda>t. case tab (number t) of None \<Rightarrow> [] | Some rows \<Rightarrow> rows) ts)"

text \<open>Appending the elements of a list that are not present yet, one after the other.\<close>

fun collect :: "'a list \<Rightarrow> 'a list \<Rightarrow> 'a list" where
  "collect [] acc = acc"
| "collect (x # xs) acc = collect xs (if x \<notin> set acc then acc @ [x] else acc)"

text \<open>
  Every stored table is the answer of the service to one of the queries issued, as it
  was returned.
\<close>

definition verbatim :: "service \<Rightarrow> obs_table \<times> criteria list \<Rightarrow> bool" where
  "verbatim svc st \<longleftrightarrow>
     (\<forall>key rows. fst st key = Some rows \<longrightarrow>
        (\<exists>k<length (snd st). rows = svc k (snd st ! k)))"

subsection \<open>Sample archives\<close>

text \<open>
  A few rows in the style of the notebook's output, and a row whose proposal ID is not a
  number. \<open>archive_of db\<close> answers a query with the rows of \<open>db\<close> it admits,
  whatever the instrument; \<open>mos_archive_of db\<close> answers only queries for MOS data.
\<close>

definition sample_rows :: "archive_row list" where
  "sample_rows =
     [\<lparr>proposal_id = ''1180'', obsid = ''86864325'', row_s_ra = 53.1, row_s_dec = - 27.8,
       row_grating = ''G395H'', row_filters = ''F290LP'', row_t_exptime = 900\<rparr>,
      \<lparr>proposal_id = ''1207'', obsid = ''86864326'', row_s_ra = 53.2, row_s_dec = - 27.9,
       row_grating = ''G395H'', row_filters = ''F290LP'', row_t_exptime = 1000\<rparr>,
      \<lparr>proposal_id = ''1180'', obsid = ''86864327'', row_s_ra = 53, row_s_dec = - 27.7,
       row_grating = ''G395H'', row_filters = ''F290LP'', row_t_exptime = 950\<rparr>,
      \<lparr>proposal_id = ''1282'', obsid = ''86874766'', row_s_ra = 68.73, row_s_dec = 24.48,
       row_grating = ''G395H'', row_filters = ''F290LP'', row_t_exptime = 30\<rparr>]"

definition unparsable_rows :: "archive_row list" where
  "unparsable_rows =
     [\<lparr>proposal_id = ''N/A'', obsid = ''86874770'', row_s_ra = 68.73, row_s_dec = 24.48,
       row_grating = ''G395H'', row_filters = ''F290LP'', row_t_exptime = 30\<rparr>]"

definition archive_of :: "archive_row list \<Rightarrow> service" where
  "archive_of db k q = filter (honors q) db"

definition mos_archive_of :: "archive_row list \<Rightarrow> service" where
  "mos_archive_of db k q =
     (if q_instrument_name q = ''NIRSPEC/MSA'' then filter (honors q) db else [])"

definition sample_archive :: service where
  "sample_archive = archive_of sample_rows"

text \<open>
  The dictionaries built from the notebook's three targets, and the variables the cells
  leave behind when the service is \<open>sample_archive\<close>.
\<close>

definition sample_catalog :: "target list" where
  "sample_catalog =
     [\<lparr>number = ''1'', RA = 53.13, DEC = - 27.8, grating = ''G395H'',
       filters = ''F290LP'', exposure_time = 950, target_search_area = 180 / 360,
       target_instrument_name = ''NIRSPEC/MSA''\<rparr>,
      \<lparr>number = ''2'', RA = 68.73091, DEC = 24.48140, grating = ''G395H'',
       filters = ''F290LP'', exposure_time = 22.749, target_search_area = 3 / 360,
       target_instrument_name = ''NIRSPEC/IFU''\<rparr>,
      \<lparr>number = ''3'', RA = 5.130, DEC = - 36.895, grating = ''G140H'',
       filters = ''F070LP'', exposure_time = 1880.22, target_search_area = 3.3 / 360,
       target_instrument_name = ''NIRSPEC/SLIT''\<rparr>]"

definition sample_report :: report where
  "sample_report =
     \<lparr>table = [''1'' \<mapsto> take 3 sample_rows, ''2'' \<mapsto> drop 3 sample_rows,
                ''2MOS'' \<mapsto> drop 3 sample_rows, ''3'' \<mapsto> [], ''3MOS'' \<mapsto> []],
      proposal_ids = [1180, 1207, 1282],
      obs_ids = [''86864325'', ''86864326'', ''86864327'', ''86874766'']\<rparr>"

text \<open>
  A notebook in which nothing was run yet, and the state the three cells leave behind
  when they run in it on the notebook's catalog with the sample archive.
\<close>

definition empty_notebook :: "unit notebook" where
  "empty_notebook =
     \<lparr>var_table = Map.empty,
      var_target = \<lparr>number = [], RA = 0, DEC = 0, grating = [], filters = [],
                    exposure_time = 0, target_search_area = 0, target_instrument_name = []\<rparr>,
      var_key = [], var_proposal_ids = [], var_proposal_id = [], var_obs_ids = [],
      var_obs_id = [], stdout = [], archive_calls = [], other_state = ()\<rparr>"

definition sample_notebook :: "unit notebook" where
  "sample_notebook =
     \<lparr>var_table = table sample_report, var_target = sample_catalog ! 2, var_key = ''3'',
      var_proposal_ids = proposal_ids sample_report, var_proposal_id = ''1282'',
      var_obs_ids = obs_ids sample_report, var_obs_id = ''86874766'',
      stdout = [Heading ''1'', Rows (take 3 sample_rows), Blank,
                Heading ''2'', Rows (drop 3 sample_rows), Blank,
                Heading ''3'', Rows [], Blank,
                Proposal_line [1180, 1207, 1282],
                Product_line [''86864325'', ''86864326'', ''86864327'', ''86874766'']],
      archive_calls = concat (map target_queries sample_catalog),
      other_state = ()\<rparr>"

section \<open>Properties\<close>

subsection \<open>Auxiliary facts\<close>

lemma table_body_msa:
  "target_instrument_name t = ''NIRSPEC/MSA'' \<Longrightarrow>
   table_body svc t (tab, issued) =
     (tab(number t \<mapsto> svc (length issued) (target_criteria t)), issued @ [target_criteria t])"
  by (simp add: table_body_def query_criteria_def target_criteria_def Let_def)

lemma table_body_other:
  "target_instrument_name t \<noteq> ''NIRSPEC/MSA'' \<Longrightarrow>
   table_body svc t (tab, issued) =
     (tab(number t \<mapsto> svc (length issued) (target_criteria t),
          number t @ ''MOS'' \<mapsto>
            svc (Suc (length issued)) ((target_criteria t)\<lparr>q_instrument_name := ''NIRSPEC/MSA''\<rparr>)),
      issued @ [target_criteria t, (target_criteria t)\<lparr>q_instrument_name := ''NIRSPEC/MSA''\<rparr>])"
  by (simp add: table_body_def query_criteria_def target_criteria_def Let_def)

lemma snd_table_body:
  "snd (table_body svc t (tab, issued)) = issued @ target_queries t"
  by (cases "target_instrument_name t = ''NIRSPEC/MSA''")
     (simp_all add: table_body_msa table_body_other target_queries_def)

lemma snd_table_loop:
  "snd (table_loop svc ts (tab, issued)) = issued @ concat (map target_queries ts)"
proof (induction ts arbitrary: tab issued)
  case Nil
  then show ?case by simp
next
  case (Cons t ts)
  obtain tab' issued' where b: "table_body svc t (tab, issued) = (tab', issued')"
    by (cases "table_body svc t (tab, issued)")
  with snd_table_body [of svc t tab issued] have "issued' = issued @ target_queries t"
    by simp
  with Cons.IH [of tab' issued'] b show ?case by simp
qed

lemma table_loop_append:
  "table_loop svc (xs @ ys) st = table_loop svc ys (table_loop svc xs st)"
  by (induction xs arbitrary: st) simp_all

lemma fst_duplication_checks:
  "make_catalog entries = Inr catalog \<Longrightarrow>
   fst (duplication_checks svc entries) = snd (table_loop svc catalog (Map.empty, []))"
  by (simp add: duplication_checks_def split: prod.splits sum.splits)

lemma make_target_error: "make_target e = Inl err \<Longrightarrow> err = KeyError"
  by (auto simp: make_target_def split: option.splits)

lemma make_catalog_error: "make_catalog es = Inl err \<Longrightarrow> err = KeyError"
  by (induction es) (auto split: sum.splits dest: make_target_error)

lemma make_target_unknown:
  "search_area (entry_aperture e) = None \<or> instrument_name (entry_aperture e) = None \<Longrightarrow>
   make_target e = Inl KeyError"
  by (auto simp: make_target_def split: option.splits)

lemma make_catalog_unknown:
  "e \<in> set es \<Longrightarrow> make_target e = Inl KeyError \<Longrightarrow> make_catalog es = Inl KeyError"
  by (induction es) (auto split: sum.splits dest: make_target_error make_catalog_error)

lemma set_first_occurrence_order [simp]: "set (first_occurrence_order xs) = set xs"
  by (induction xs) auto

lemma distinct_first_occurrence_order [simp]: "distinct (first_occurrence_order xs)"
  by (induction xs) auto

lemma first_occurrence_order_filter:
  "first_occurrence_order (filter P xs) = filter P (first_occurrence_order xs)"
proof (induction xs)
  case Nil
  then show ?case by simp
next
  case (Cons x xs)
  have "filter (\<lambda>y. y \<noteq> x) (filter P (first_occurrence_order xs)) =
        filter P (filter (\<lambda>y. y \<noteq> x) (first_occurrence_order xs))"
    by (simp add: conj_commute)
  moreover have "\<not> P x \<Longrightarrow> filter P (filter (\<lambda>y. y \<noteq> x) (first_occurrence_order xs)) =
        filter P (first_occurrence_order xs)"
    by (auto intro: filter_cong)
  ultimately show ?case using Cons by auto
qed

lemma first_occurrence_order_map:
  assumes "inj f"
  shows "first_occurrence_order (map f xs) = map f (first_occurrence_order xs)"
proof (induction xs)
  case Nil
  then show ?case by simp
next
  case (Cons x xs)
  have "(\<lambda>y. y \<noteq> f x) \<circ> f = (\<lambda>y. y \<noteq> x)"
    using assms by (auto simp: fun_eq_iff dest: injD)
  with Cons show ?case by (simp add: filter_map)
qed

lemma collect_first_occurrence_order:
  "collect xs acc = acc @ filter (\<lambda>x. x \<notin> set acc) (first_occurrence_order xs)"
proof (induction xs arbitrary: acc)
  case Nil
  then show ?case by simp
next
  case (Cons x xs)
  show ?case
  proof (cases "x \<in> set acc")
    case True
    then have "filter (\<lambda>y. y \<notin> set acc) (filter (\<lambda>y. y \<noteq> x) (first_occurrence_order xs)) =
               filter (\<lambda>y. y \<notin> set acc) (first_occurrence_order xs)"
      by (auto intro: filter_cong)
    with True Cons.IH [of acc] show ?thesis by simp
  next
    case False
    have "filter (\<lambda>y. y \<notin> set (acc @ [x])) (first_occurrence_order xs) =
          filter (\<lambda>y. y \<notin> set acc) (filter (\<lambda>y. y \<noteq> x) (first_occurrence_order xs))"
      by (auto intro: filter_cong)
    with False Cons.IH [of "acc @ [x]"] show ?thesis by simp
  qed
qed

lemma collect_Nil: "collect xs [] = first_occurrence_order xs"
  by (simp add: collect_first_occurrence_order)

lemma collect_append: "collect (xs @ ys) acc = collect ys (collect xs acc)"
  by (induction xs arbitrary: acc) simp_all

lemma obs_ids_rows_collect: "obs_ids_rows rows acc = collect (map obsid rows) acc"
  by (induction rows arbitrary: acc) simp_all

lemma py_int_error: "py_int s = Inl err \<Longrightarrow> err = ValueError"
  by (auto simp: py_int_def Let_def split: prod.splits if_splits)

lemma proposal_ids_rows_ok:
  "\<forall>r\<in>set rows. \<not> isl (py_int (proposal_id r)) \<Longrightarrow>
   proposal_ids_rows rows acc =
     Inr (collect (map (\<lambda>r. projr (py_int (proposal_id r))) rows) acc)"
proof (induction rows arbitrary: acc)
  case Nil
  then show ?case by simp
next
  case (Cons r rs)
  then obtain n where n: "py_int (proposal_id r) = Inr n"
    by (cases "py_int (proposal_id r)") auto
  with Cons show ?case by simp
qed

lemma proposal_ids_rows_fail:
  "\<exists>r\<in>set rows. isl (py_int (proposal_id r)) \<Longrightarrow>
   proposal_ids_rows rows acc = Inl ValueError"
proof (induction rows arbitrary: acc)
  case Nil
  then show ?case by simp
next
  case (Cons r rs)
  show ?case
  proof (cases "py_int (proposal_id r)")
    case (Inl err)
    with py_int_error [OF Inl] show ?thesis by simp
  next
    case (Inr n)
    with Cons.prems have "\<exists>r\<in>set rs. isl (py_int (proposal_id r))" by auto
    with Cons.IH Inr show ?thesis by simp
  qed
qed

lemma own_rows_Cons:
  "tab (number t) = Some rows \<Longrightarrow> own_rows tab (t # ts) = rows @ own_rows tab ts"
  by (simp add: own_rows_def)

lemma obs_ids_loop_collect:
  "\<forall>t\<in>set ts. tab (number t) \<noteq> None \<Longrightarrow>
   obs_ids_loop tab ts acc = Inr (collect (map obsid (own_rows tab ts)) acc)"
proof (induction ts arbitrary: acc)
  case Nil
  then show ?case by (simp add: own_rows_def)
next
  case (Cons t ts)
  then obtain rows where rows: "tab (number t) = Some rows" by auto
  with Cons show ?case
    by (simp add: own_rows_Cons obs_ids_rows_collect collect_append)
qed

lemma proposal_ids_loop_ok:
  "\<forall>t\<in>set ts. tab (number t) \<noteq> None \<Longrightarrow>
   \<forall>r\<in>set (own_rows tab ts). \<not> isl (py_int (proposal_id r)) \<Longrightarrow>
   proposal_ids_loop tab ts acc =
     Inr (collect (map (\<lambda>r. projr (py_int (proposal_id r))) (own_rows tab ts)) acc)"
proof (induction ts arbitrary: acc)
  case Nil
  then show ?case by (simp add: own_rows_def)
next
  case (Cons t ts)
  then obtain rows where rows: "tab (number t) = Some rows" by auto
  with Cons.prems have ok: "\<forall>r\<in>set rows. \<not> isl (py_int (proposal_id r))"
    and rest: "\<forall>r\<in>set (own_rows tab ts). \<not> isl (py_int (proposal_id r))"
    by (simp_all add: own_rows_Cons)
  from Cons.prems have keys: "\<forall>t\<in>set ts. tab (number t) \<noteq> None" by simp
  show ?case
    using rows Cons.IH [OF keys rest]
    by (simp add: own_rows_Cons proposal_ids_rows_ok [OF ok] collect_append)
qed

lemma proposal_ids_loop_fail:
  "\<forall>t\<in>set ts. tab (number t) \<noteq> None \<Longrightarrow>
   \<exists>r\<in>set (own_rows tab ts). isl (py_int (proposal_id r)) \<Longrightarrow>
   proposal_ids_loop tab ts acc = Inl ValueError"
proof (induction ts arbitrary: acc)
  case Nil
  then show ?case by (simp add: own_rows_def)
next
  case (Cons t ts)
  then obtain rows where rows: "tab (number t) = Some rows" by auto
  from Cons.prems have keys: "\<forall>t\<in>set ts. tab (number t) \<noteq> None" by simp
  show ?case
  proof (cases "\<exists>r\<in>set rows. isl (py_int (proposal_id r))")
    case True
    with rows show ?thesis by (simp add: proposal_ids_rows_fail)
  next
    case False
    with Cons.prems(2) rows have "\<exists>r\<in>set (own_rows tab ts). isl (py_int (proposal_id r))"
      by (auto simp: own_rows_Cons)
    from Cons.IH [OF keys this] rows False show ?thesis
      by (simp add: proposal_ids_rows_ok)
  qed
qed

lemma table_body_dom:
  "number t \<in> dom (fst (table_body svc t st)) \<and> dom (fst st) \<subseteq> dom (fst (table_body svc t st))"
  by (cases st, cases "target_instrument_name t = ''NIRSPEC/MSA''")
     (auto simp: table_body_msa table_body_other)

lemma table_loop_dom_mono: "dom (fst st) \<subseteq> dom (fst (table_loop svc ts st))"
proof (induction ts arbitrary: st)
  case Nil
  then show ?case by simp
next
  case (Cons t ts)
  have "dom (fst st) \<subseteq> dom (fst (table_body svc t st))"
    using table_body_dom [of t svc st] by blast
  also have "\<dots> \<subseteq> dom (fst (table_loop svc ts (table_body svc t st)))"
    by (rule Cons.IH)
  finally show ?case by simp
qed

lemma table_loop_keys: "t \<in> set ts \<Longrightarrow> number t \<in> dom (fst (table_loop svc ts st))"
proof (induction ts arbitrary: st)
  case Nil
  then show ?case by simp
next
  case (Cons a ts)
  show ?case
  proof (cases "t = a")
    case True
    have "number a \<in> dom (fst (table_body svc a st))"
      using table_body_dom [of a svc st] by blast
    with table_loop_dom_mono [of "table_body svc a st" svc ts] True
    show ?thesis by auto
  next
    case False
    with Cons show ?thesis by simp
  qed
qed

lemma make_target_mode:
  "make_target e = Inr t \<Longrightarrow>
   (target_instrument_name t = ''NIRSPEC/MSA'') = (entry_aperture e = ''MSA'')"
  by (auto simp: make_target_def instrument_name_def search_area_def
      split: option.splits if_splits)

lemma make_catalog_modes:
  "make_catalog es = Inr ts \<Longrightarrow>
   map (\<lambda>t. target_instrument_name t = ''NIRSPEC/MSA'') ts =
   map (\<lambda>e. entry_aperture e = ''MSA'') es"
  by (induction es arbitrary: ts) (auto split: sum.splits dest: make_target_mode)

lemma proposal_ids_rows_Inr:
  "proposal_ids_rows rows acc = Inr acc' \<Longrightarrow> \<forall>r\<in>set rows. \<not> isl (py_int (proposal_id r))"
  by (induction rows arbitrary: acc) (auto split: sum.splits)

lemma proposal_ids_loop_Inr:
  "proposal_ids_loop tab ts acc = Inr acc' \<Longrightarrow>
   (\<forall>t\<in>set ts. tab (number t) \<noteq> None) \<and>
   (\<forall>r\<in>set (own_rows tab ts). \<not> isl (py_int (proposal_id r)))"
proof (induction ts arbitrary: acc)
  case Nil
  then show ?case by (simp add: own_rows_def)
next
  case (Cons t ts)
  from Cons.prems obtain rows acc1 where rows: "tab (number t) = Some rows"
    and inner: "proposal_ids_rows rows acc = Inr acc1"
    and rest: "proposal_ids_loop tab ts acc1 = Inr acc'"
    by (auto split: option.splits sum.splits)
  from Cons.IH [OF rest] proposal_ids_rows_Inr [OF inner] rows
  show ?case by (auto simp: own_rows_Cons)
qed

lemma obs_ids_loop_Inr:
  "obs_ids_loop tab ts acc = Inr acc' \<Longrightarrow> \<forall>t\<in>set ts. tab (number t) \<noteq> None"
  by (induction ts arbitrary: acc) (auto split: option.splits)

lemma conversions_Inr:
  "\<forall>r\<in>set rows. \<not> isl (py_int (proposal_id r)) \<Longrightarrow>
   map Inr (map (\<lambda>r. projr (py_int (proposal_id r))) rows) = map (py_int \<circ> proposal_id) rows"
  by (induction rows) (auto simp: sum.expand)

lemma converted_first_occurrences:
  assumes "\<forall>r\<in>set rows. \<not> isl (py_int (proposal_id r))"
  shows "map Inr (first_occurrence_order (map (\<lambda>r. projr (py_int (proposal_id r))) rows)) =
         first_occurrence_order (map (py_int \<circ> proposal_id) rows)"
proof -
  have "inj (Inr :: int \<Rightarrow> error + int)" by (simp add: inj_def)
  from first_occurrence_order_map [OF this] conversions_Inr [OF assms]
  show ?thesis by metis
qed

lemmas catalog_simps = input_catalog_def target1_def target2_def target3_def make_target_def
  search_area_def instrument_name_def mos_radius_def ifu_radius_def fs_S200B1_radius_def

lemmas run_simps = duplication_checks_def table_body_def query_criteria_def Let_def honors_def
  py_int_def is_space_def is_digit_def literal_value_def digit_value_def

lemma run_ok:
  assumes "make_catalog entries = Inr catalog"
    and "table_loop svc catalog (Map.empty, []) = (tab, issued)"
    and "\<forall>r\<in>set (own_rows tab catalog). \<not> isl (py_int (proposal_id r))"
  shows "duplication_checks svc entries =
     (issued, Inr \<lparr>table = tab,
        proposal_ids = first_occurrence_order
          (map (\<lambda>r. projr (py_int (proposal_id r))) (own_rows tab catalog)),
        obs_ids = first_occurrence_order (map obsid (own_rows tab catalog))\<rparr>)"
proof -
  have keys: "\<forall>t\<in>set catalog. tab (number t) \<noteq> None"
    using table_loop_keys [of _ catalog svc "(Map.empty, [])"] assms(2) by auto
  show ?thesis
    using assms(1,2)
    by (simp add: duplication_checks_def proposal_ids_loop_ok [OF keys assms(3)]
        obs_ids_loop_collect [OF keys] collect_Nil)
qed

lemma run_fail:
  assumes "make_catalog entries = Inr catalog"
    and "table_loop svc catalog (Map.empty, []) = (tab, issued)"
    and "\<exists>r\<in>set (own_rows tab catalog). isl (py_int (proposal_id r))"
  shows "duplication_checks svc entries = (issued, Inl ValueError)"
proof -
  have keys: "\<forall>t\<in>set catalog. tab (number t) \<noteq> None"
    using table_loop_keys [of _ catalog svc "(Map.empty, [])"] assms(2) by auto
  show ?thesis
    using assms(1,2)
    by (simp add: duplication_checks_def proposal_ids_loop_fail [OF keys assms(3)])
qed

lemma run_Inr:
  assumes "make_catalog entries = Inr catalog"
    and "duplication_checks svc entries = (issued, Inr rep)"
  shows "table_loop svc catalog (Map.empty, []) = (table rep, issued) \<and>
         proposal_ids_loop (table rep) catalog [] = Inr (proposal_ids rep) \<and>
         obs_ids_loop (table rep) catalog [] = Inr (obs_ids rep)"
  using assms
  by (auto simp: duplication_checks_def split: prod.splits sum.splits)

lemma own_rows_member:
  "t \<in> set ts \<Longrightarrow> tab (number t) = Some rows \<Longrightarrow> r \<in> set rows \<Longrightarrow> r \<in> set (own_rows tab ts)"
  by (force simp: own_rows_def)

lemma proposal_ids_loop_cong:
  "\<forall>t\<in>set ts. tab' (number t) = tab (number t) \<Longrightarrow>
   proposal_ids_loop tab' ts acc = proposal_ids_loop tab ts acc"
  by (induction ts arbitrary: acc) (auto split: option.splits sum.splits)

lemma obs_ids_loop_cong:
  "\<forall>t\<in>set ts. tab' (number t) = tab (number t) \<Longrightarrow>
   obs_ids_loop tab' ts acc = obs_ids_loop tab ts acc"
  by (induction ts arbitrary: acc) (auto split: option.splits)

lemma table_after_target:
  "table_loop svc pre st = (tab0, issued0) \<Longrightarrow>
   table_loop svc (pre @ [t]) st = table_body svc t (tab0, issued0)"
  by (simp add: table_loop_append)

lemma key_not_companion [simp]: "key @ ''MOS'' \<noteq> key" "key \<noteq> key @ ''MOS''"
  by simp_all

lemma stored_after_target:
  assumes "table_loop svc pre st = (tab0, issued0)"
  shows "fst (table_loop svc (pre @ [t]) st) (number t) =
           Some (svc (length issued0) (target_criteria t))"
    and "target_instrument_name t \<noteq> ''NIRSPEC/MSA'' \<Longrightarrow>
         fst (table_loop svc (pre @ [t]) st) (number t @ ''MOS'') =
           Some (svc (Suc (length issued0))
                  ((target_criteria t)\<lparr>q_instrument_name := ''NIRSPEC/MSA''\<rparr>))"
  using table_after_target [OF assms, of t]
  by (cases "target_instrument_name t = ''NIRSPEC/MSA''";
      simp add: table_body_msa table_body_other)+

lemma verbatim_body: "verbatim svc st \<Longrightarrow> verbatim svc (table_body svc t st)"
proof (cases st)
  case (Pair tab issued)
  assume v: "verbatim svc st"
  show ?thesis
  proof (cases "target_instrument_name t = ''NIRSPEC/MSA''")
    case True
    show ?thesis
      unfolding Pair table_body_msa [OF True] verbatim_def
    proof (intro allI impI)
      fix key rows
      assume a: "fst (tab(number t \<mapsto> svc (length issued) (target_criteria t)),
                      issued @ [target_criteria t]) key = Some rows"
      show "\<exists>k<length (snd (tab(number t \<mapsto> svc (length issued) (target_criteria t)),
                       issued @ [target_criteria t])).
              rows = svc k (snd (tab(number t \<mapsto> svc (length issued) (target_criteria t)),
                       issued @ [target_criteria t]) ! k)"
      proof (cases "key = number t")
        case True
        with a show ?thesis by (intro exI [of _ "length issued"]) simp
      next
        case False
        with a v Pair obtain k where "k < length issued" "rows = svc k (issued ! k)"
          by (auto simp: verbatim_def)
        then show ?thesis by (intro exI [of _ k]) (simp add: nth_append)
      qed
    qed
  next
    case False
    let ?q1 = "target_criteria t"
    let ?q2 = "(target_criteria t)\<lparr>q_instrument_name := ''NIRSPEC/MSA''\<rparr>"
    show ?thesis
      unfolding Pair table_body_other [OF False] verbatim_def
    proof (intro allI impI)
      fix key rows
      assume a: "fst (tab(number t \<mapsto> svc (length issued) ?q1,
                          number t @ ''MOS'' \<mapsto> svc (Suc (length issued)) ?q2),
                      issued @ [?q1, ?q2]) key = Some rows"
      show "\<exists>k<length (snd (tab(number t \<mapsto> svc (length issued) ?q1,
                          number t @ ''MOS'' \<mapsto> svc (Suc (length issued)) ?q2),
                      issued @ [?q1, ?q2])).
              rows = svc k (snd (tab(number t \<mapsto> svc (length issued) ?q1,
                          number t @ ''MOS'' \<mapsto> svc (Suc (length issued)) ?q2),
                      issued @ [?q1, ?q2]) ! k)"
      proof (cases "key = number t @ ''MOS''")
        case True
        with a show ?thesis by (intro exI [of _ "Suc (length issued)"]) (simp add: nth_append)
      next
        case nc: False
        show ?thesis
        proof (cases "key = number t")
          case True
          with a nc show ?thesis by (intro exI [of _ "length issued"]) (simp add: nth_append)
        next
          case False
          with a nc v Pair obtain k where "k < length issued" "rows = svc k (issued ! k)"
            by (auto simp: verbatim_def)
          then show ?thesis by (intro exI [of _ k]) (simp add: nth_append)
        qed
      qed
    qed
  qed
qed

lemma verbatim_loop: "verbatim svc st \<Longrightarrow> verbatim svc (table_loop svc ts st)"
  by (induction ts arbitrary: st) (simp_all add: verbatim_body)

lemma verbatim_init: "verbatim svc (Map.empty, [])"
  by (simp add: verbatim_def)

lemma table_body_agree:
  assumes "\<forall>k<length (target_queries t).
             svc' (length issued + k) (target_queries t ! k) =
             svc (length issued + k) (target_queries t ! k)"
  shows "table_body svc' t (tab, issued) = table_body svc t (tab, issued)"
proof (cases "target_instrument_name t = ''NIRSPEC/MSA''")
  case True
  with assms have "svc' (length issued) (target_criteria t) = svc (length issued) (target_criteria t)"
    by (simp add: target_queries_def)
  with True show ?thesis by (simp add: table_body_msa)
next
  case False
  with assms [rule_format, of 0] assms [rule_format, of 1]
  have "svc' (length issued) (target_criteria t) = svc (length issued) (target_criteria t)"
    and "svc' (Suc (length issued)) ((target_criteria t)\<lparr>q_instrument_name := ''NIRSPEC/MSA''\<rparr>) =
         svc (Suc (length issued)) ((target_criteria t)\<lparr>q_instrument_name := ''NIRSPEC/MSA''\<rparr>)"
    by (simp_all add: target_queries_def)
  with False show ?thesis by (simp add: table_body_other)
qed

lemma sample_catalog_made: "make_catalog input_catalog = Inr sample_catalog"
  by (simp add: catalog_simps sample_catalog_def)

lemma sample_run:
  "duplication_checks sample_archive input_catalog =
     (concat (map target_queries sample_catalog), Inr sample_report)"
  by (simp add: run_simps sample_catalog_made sample_catalog_def sample_report_def
      sample_archive_def archive_of_def sample_rows_def target_queries_def target_criteria_def)

lemma sample_archive_honors: "\<forall>k q. \<forall>r\<in>set (sample_archive k q). honors q r"
  by (simp add: sample_archive_def archive_of_def)

lemma own_rows_elem:
  "r \<in> set (own_rows tab ts) \<Longrightarrow>
   \<exists>t\<in>set ts. \<exists>rows. tab (number t) = Some rows \<and> r \<in> set rows"
  by (induction ts) (auto simp: own_rows_def split: option.splits)

lemma table_body_other_key:
  "key \<notin> set (target_keys u) \<Longrightarrow> fst (table_body svc u st) key = fst st key"
  by (cases st, cases "target_instrument_name u = ''NIRSPEC/MSA''")
     (simp_all add: table_body_msa table_body_other target_keys_def)

lemma table_loop_other_keys:
  "\<forall>u\<in>set post. key \<notin> set (target_keys u) \<Longrightarrow>
   fst (table_loop svc post st) key = fst st key"
  by (induction post arbitrary: st) (simp_all add: table_body_other_key)

lemma table_loop_split:
  "table_loop svc (pre @ t # post) st = table_loop svc post (table_loop svc (pre @ [t]) st)"
  using table_loop_append [of svc "pre @ [t]" post st] by simp

lemma table_cell_body_eq:
  "table_cell_body svc t w =
     (None, w\<lparr>var_target := t, var_key := number t,
              var_table := fst (table_body svc t (var_table w, archive_calls w)),
              archive_calls := archive_calls w @ target_queries t,
              stdout := stdout w @
                [Heading (number t),
                 Rows (take 5 (svc (length (archive_calls w)) (target_criteria t))), Blank]\<rparr>)"
  by (cases "target_instrument_name t = ''NIRSPEC/MSA''")
     (simp_all add: table_cell_body_def py_print_def table_body_msa table_body_other
       target_queries_def)

lemma table_cell_loop_eq:
  "\<exists>tg k out. table_cell_loop svc ts w =
     (None, w\<lparr>var_target := tg, var_key := k,
              var_table := fst (table_loop svc ts (var_table w, archive_calls w)),
              archive_calls := archive_calls w @ concat (map target_queries ts),
              stdout := stdout w @ out\<rparr>)"
proof (induction ts arbitrary: w)
  case Nil
  show ?case
    by (intro exI [of _ "var_target w"] exI [of _ "var_key w"] exI [of _ "[]"]) simp
next
  case (Cons t ts)
  let ?w1 = "w\<lparr>var_target := t, var_key := number t,
              var_table := fst (table_body svc t (var_table w, archive_calls w)),
              archive_calls := archive_calls w @ target_queries t,
              stdout := stdout w @
                [Heading (number t),
                 Rows (take 5 (svc (length (archive_calls w)) (target_criteria t))), Blank]\<rparr>"
  from Cons.IH [of ?w1] obtain tg k out where
    "table_cell_loop svc ts ?w1 =
       (None, ?w1\<lparr>var_target := tg, var_key := k,
              var_table := fst (table_loop svc ts (var_table ?w1, archive_calls ?w1)),
              archive_calls := archive_calls ?w1 @ concat (map target_queries ts),
              stdout := stdout ?w1 @ out\<rparr>)"
    by blast
  moreover have "table_body svc t (var_table w, archive_calls w) =
      (fst (table_body svc t (var_table w, archive_calls w)), archive_calls w @ target_queries t)"
    using snd_table_body [of svc t "var_table w" "archive_calls w"]
    by (cases "table_body svc t (var_table w, archive_calls w)") simp
  ultimately have "table_cell_loop svc (t # ts) w =
      (None, w\<lparr>var_target := tg, var_key := k,
              var_table := fst (table_loop svc (t # ts) (var_table w, archive_calls w)),
              archive_calls := archive_calls w @ concat (map target_queries (t # ts)),
              stdout := stdout w @
                ([Heading (number t),
                  Rows (take 5 (svc (length (archive_calls w)) (target_criteria t))), Blank] @ out)\<rparr>)"
    by (simp add: table_cell_body_eq)
  then show ?case by blast
qed

lemma table_cell_body_agree:
  assumes "\<forall>k<length (target_queries t).
             svc' (length (archive_calls w) + k) (target_queries t ! k) =
             svc (length (archive_calls w) + k) (target_queries t ! k)"
  shows "table_cell_body svc' t w = table_cell_body svc t w"
proof -
  have "svc' (length (archive_calls w)) (target_criteria t) =
        svc (length (archive_calls w)) (target_criteria t)"
    using assms [rule_format, of 0]
    by (cases "target_instrument_name t = ''NIRSPEC/MSA''") (simp_all add: target_queries_def)
  with table_body_agree [OF assms, of "var_table w"] show ?thesis
    by (simp add: table_cell_body_eq)
qed

lemma table_cell_loop_agree:
  assumes "\<forall>k<length (concat (map target_queries ts)).
             svc' (length (archive_calls w) + k) (concat (map target_queries ts) ! k) =
             svc (length (archive_calls w) + k) (concat (map target_queries ts) ! k)"
  shows "table_cell_loop svc' ts w = table_cell_loop svc ts w"
  using assms
proof (induction ts arbitrary: w)
  case Nil
  then show ?case by simp
next
  case (Cons t ts)
  let ?qs = "target_queries t"
  let ?rest = "concat (map target_queries ts)"
  have head: "\<forall>k<length ?qs. svc' (length (archive_calls w) + k) (?qs ! k) =
      svc (length (archive_calls w) + k) (?qs ! k)"
  proof (intro allI impI)
    fix k assume "k < length ?qs"
    with Cons.prems [rule_format, of k]
    show "svc' (length (archive_calls w) + k) (?qs ! k) = svc (length (archive_calls w) + k) (?qs ! k)"
      by (simp add: nth_append)
  qed
  obtain w1 where body: "table_cell_body svc t w = (None, w1)"
    and calls: "archive_calls w1 = archive_calls w @ ?qs"
    by (simp add: table_cell_body_eq)
  have "\<forall>k<length ?rest. svc' (length (archive_calls w1) + k) (?rest ! k) =
      svc (length (archive_calls w1) + k) (?rest ! k)"
  proof (intro allI impI)
    fix k assume "k < length ?rest"
    with Cons.prems [rule_format, of "length ?qs + k"] calls
    show "svc' (length (archive_calls w1) + k) (?rest ! k) =
          svc (length (archive_calls w1) + k) (?rest ! k)"
      by (simp add: nth_append add.assoc)
  qed
  from Cons.IH [OF this] table_cell_body_agree [OF head] body
  show ?case by simp
qed

lemma proposal_cell_rows_eq:
  "\<exists>pid pids. proposal_cell_rows rows w =
      (case proposal_ids_rows rows (var_proposal_ids w) of Inl err \<Rightarrow> Some err | Inr _ \<Rightarrow> None,
       w\<lparr>var_proposal_id := pid, var_proposal_ids := pids\<rparr>) \<and>
     (\<forall>ids. proposal_ids_rows rows (var_proposal_ids w) = Inr ids \<longrightarrow> pids = ids)"
proof (induction rows arbitrary: w)
  case Nil
  have "w = w\<lparr>var_proposal_id := var_proposal_id w, var_proposal_ids := var_proposal_ids w\<rparr>"
    by simp
  then show ?case by (metis proposal_cell_rows.simps(1) proposal_ids_rows.simps(1)
        sum.simps(6) sum.inject(2))
next
  case (Cons r rs)
  show ?case
  proof (cases "py_int (proposal_id r)")
    case (Inl err)
    have "proposal_cell_rows (r # rs) w =
        (Some err, w\<lparr>var_proposal_id := proposal_id r, var_proposal_ids := var_proposal_ids w\<rparr>)"
      using Inl by simp
    with Inl show ?thesis by (intro exI [of _ "proposal_id r"] exI [of _ "var_proposal_ids w"]) simp
  next
    case (Inr n)
    let ?w1 = "if n \<notin> set (var_proposal_ids w)
        then w\<lparr>var_proposal_id := proposal_id r, var_proposal_ids := var_proposal_ids w @ [n]\<rparr>
        else w\<lparr>var_proposal_id := proposal_id r\<rparr>"
    from Cons.IH [of ?w1] obtain pid pids where
      eq: "proposal_cell_rows rs ?w1 =
        (case proposal_ids_rows rs (var_proposal_ids ?w1) of Inl err \<Rightarrow> Some err | Inr _ \<Rightarrow> None,
         ?w1\<lparr>var_proposal_id := pid, var_proposal_ids := pids\<rparr>)"
      and ids: "\<forall>ids. proposal_ids_rows rs (var_proposal_ids ?w1) = Inr ids \<longrightarrow> pids = ids"
      by blast
    have upd: "?w1\<lparr>var_proposal_id := pid, var_proposal_ids := pids\<rparr> =
        w\<lparr>var_proposal_id := pid, var_proposal_ids := pids\<rparr>"
      by simp
    have step: "proposal_cell_rows (r # rs) w = proposal_cell_rows rs ?w1"
      using Inr by simp
    have step': "proposal_ids_rows (r # rs) (var_proposal_ids w) =
        proposal_ids_rows rs (var_proposal_ids ?w1)"
      using Inr by simp
    show ?thesis
      unfolding step step' using eq ids upd
      by (intro exI [of _ pid] exI [of _ pids]) simp
  qed
qed

lemma proposal_cell_loop_eq:
  "\<exists>tg pid pids. proposal_cell_loop ts w =
      (case proposal_ids_loop (var_table w) ts (var_proposal_ids w) of
         Inl err \<Rightarrow> Some err | Inr _ \<Rightarrow> None,
       w\<lparr>var_target := tg, var_proposal_id := pid, var_proposal_ids := pids\<rparr>) \<and>
     (\<forall>ids. proposal_ids_loop (var_table w) ts (var_proposal_ids w) = Inr ids \<longrightarrow> pids = ids)"
proof (induction ts arbitrary: w)
  case Nil
  show ?case
    by (intro exI [of _ "var_target w"] exI [of _ "var_proposal_id w"]
        exI [of _ "var_proposal_ids w"]) simp
next
  case (Cons t ts)
  show ?case
  proof (cases "var_table w (number t)")
    case None
    then show ?thesis
      by (intro exI [of _ t] exI [of _ "var_proposal_id w"] exI [of _ "var_proposal_ids w"]) simp
  next
    case (Some rows)
    let ?w1 = "w\<lparr>var_target := t\<rparr>"
    from proposal_cell_rows_eq [of rows ?w1] obtain pid pids where
      rows_eq: "proposal_cell_rows rows ?w1 =
        (case proposal_ids_rows rows (var_proposal_ids w) of Inl err \<Rightarrow> Some err | Inr _ \<Rightarrow> None,
         ?w1\<lparr>var_proposal_id := pid, var_proposal_ids := pids\<rparr>)"
      and rows_ids: "\<forall>ids. proposal_ids_rows rows (var_proposal_ids w) = Inr ids \<longrightarrow> pids = ids"
      by auto
    show ?thesis
    proof (cases "proposal_ids_rows rows (var_proposal_ids w)")
      case (Inl err)
      with Some rows_eq show ?thesis
        by (intro exI [of _ t] exI [of _ pid] exI [of _ pids]) simp
    next
      case (Inr ids)
      with rows_ids have pids: "pids = ids" by simp
      let ?w2 = "?w1\<lparr>var_proposal_id := pid, var_proposal_ids := ids\<rparr>"
      from Cons.IH [of ?w2] obtain tg pid' pids' where
        eq: "proposal_cell_loop ts ?w2 =
          (case proposal_ids_loop (var_table w) ts ids of Inl err \<Rightarrow> Some err | Inr _ \<Rightarrow> None,
           ?w2\<lparr>var_target := tg, var_proposal_id := pid', var_proposal_ids := pids'\<rparr>)"
        and ids': "\<forall>xs. proposal_ids_loop (var_table w) ts ids = Inr xs \<longrightarrow> pids' = xs"
        by auto
      from Some Inr rows_eq pids eq ids' show ?thesis
        by (intro exI [of _ tg] exI [of _ pid'] exI [of _ pids']) simp
    qed
  qed
qed

lemma obs_cell_rows_eq:
  "\<exists>oid. obs_cell_rows rows w =
     w\<lparr>var_obs_id := oid, var_obs_ids := obs_ids_rows rows (var_obs_ids w)\<rparr>"
proof (induction rows arbitrary: w)
  case Nil
  show ?case by (intro exI [of _ "var_obs_id w"]) simp
next
  case (Cons r rs)
  let ?w1 = "if obsid r \<notin> set (var_obs_ids w)
      then w\<lparr>var_obs_id := obsid r, var_obs_ids := var_obs_ids w @ [obsid r]\<rparr>
      else w\<lparr>var_obs_id := obsid r\<rparr>"
  from Cons.IH [of ?w1] obtain oid where
    "obs_cell_rows rs ?w1 = ?w1\<lparr>var_obs_id := oid, var_obs_ids := obs_ids_rows rs (var_obs_ids ?w1)\<rparr>"
    by blast
  then show ?case
    by (cases "obsid r \<in> set (var_obs_ids w)") (auto intro!: exI [of _ oid])
qed

lemma obs_cell_loop_eq:
  "\<exists>tg oid oids. obs_cell_loop ts w =
      (case obs_ids_loop (var_table w) ts (var_obs_ids w) of
         Inl err \<Rightarrow> Some err | Inr _ \<Rightarrow> None,
       w\<lparr>var_target := tg, var_obs_id := oid, var_obs_ids := oids\<rparr>) \<and>
     (\<forall>ids. obs_ids_loop (var_table w) ts (var_obs_ids w) = Inr ids \<longrightarrow> oids = ids)"
proof (induction ts arbitrary: w)
  case Nil
  show ?case
    by (intro exI [of _ "var_target w"] exI [of _ "var_obs_id w"] exI [of _ "var_obs_ids w"]) simp
next
  case (Cons t ts)
  show ?case
  proof (cases "var_table w (number t)")
    case None
    then show ?thesis
      by (intro exI [of _ t] exI [of _ "var_obs_id w"] exI [of _ "var_obs_ids w"]) simp
  next
    case (Some rows)
    let ?w1 = "w\<lparr>var_target := t\<rparr>"
    from obs_cell_rows_eq [of rows ?w1] obtain oid where
      rows_eq: "obs_cell_rows rows ?w1 =
        ?w1\<lparr>var_obs_id := oid, var_obs_ids := obs_ids_rows rows (var_obs_ids w)\<rparr>"
      by auto
    let ?w2 = "?w1\<lparr>var_obs_id := oid, var_obs_ids := obs_ids_rows rows (var_obs_ids w)\<rparr>"
    from Cons.IH [of ?w2] obtain tg oid' oids' where
      eq: "obs_cell_loop ts ?w2 =
        (case obs_ids_loop (var_table w) ts (obs_ids_rows rows (var_obs_ids w)) of
           Inl err \<Rightarrow> Some err | Inr _ \<Rightarrow> None,
         ?w2\<lparr>var_target := tg, var_obs_id := oid', var_obs_ids := oids'\<rparr>)"
      and ids': "\<forall>xs. obs_ids_loop (var_table w) ts (obs_ids_rows rows (var_obs_ids w)) = Inr xs
          \<longrightarrow> oids' = xs"
      by auto
    from Some rows_eq eq ids' show ?thesis
      by (intro exI [of _ tg] exI [of _ oid'] exI [of _ oids']) simp
  qed
qed

lemma table_cell_eq:
  "\<exists>tg k out. table_cell svc ts w =
     (None, w\<lparr>var_target := tg, var_key := k,
              var_table := fst (table_loop svc ts (Map.empty, archive_calls w)),
              archive_calls := archive_calls w @ concat (map target_queries ts),
              stdout := stdout w @ out\<rparr>)"
proof -
  from table_cell_loop_eq [of svc ts "w\<lparr>var_table := Map.empty\<rparr>"]
  obtain tg k out where
    "table_cell_loop svc ts (w\<lparr>var_table := Map.empty\<rparr>) =
       (None, w\<lparr>var_table := Map.empty\<rparr>\<lparr>var_target := tg, var_key := k,
          var_table := fst (table_loop svc ts (Map.empty, archive_calls w)),
          archive_calls := archive_calls w @ concat (map target_queries ts),
          stdout := stdout w @ out\<rparr>)"
    by auto
  then show ?thesis
    by (intro exI [of _ tg] exI [of _ k] exI [of _ out]) (simp add: table_cell_def)
qed

lemma proposal_cell_eq:
  "\<exists>tg pid pids out. proposal_cell ts w =
      (case proposal_ids_loop (var_table w) ts [] of Inl err \<Rightarrow> Some err | Inr _ \<Rightarrow> None,
       w\<lparr>var_target := tg, var_proposal_id := pid, var_proposal_ids := pids,
         stdout := stdout w @ out\<rparr>) \<and>
     (\<forall>ids. proposal_ids_loop (var_table w) ts [] = Inr ids \<longrightarrow> pids = ids)"
proof -
  from proposal_cell_loop_eq [of ts "w\<lparr>var_proposal_ids := []\<rparr>"]
  obtain tg pid pids where
    eq: "proposal_cell_loop ts (w\<lparr>var_proposal_ids := []\<rparr>) =
      (case proposal_ids_loop (var_table w) ts [] of Inl err \<Rightarrow> Some err | Inr _ \<Rightarrow> None,
       w\<lparr>var_proposal_ids := []\<rparr>\<lparr>var_target := tg, var_proposal_id := pid,
         var_proposal_ids := pids\<rparr>)"
    and ids: "\<forall>ids. proposal_ids_loop (var_table w) ts [] = Inr ids \<longrightarrow> pids = ids"
    by auto
  show ?thesis
  proof (cases "proposal_ids_loop (var_table w) ts []")
    case (Inl err)
    with eq ids show ?thesis
      by (intro exI [of _ tg] exI [of _ pid] exI [of _ pids] exI [of _ "[]"])
         (simp add: proposal_cell_def)
  next
    case (Inr xs)
    with eq ids show ?thesis
      by (intro exI [of _ tg] exI [of _ pid] exI [of _ pids]
          exI [of _ "[Proposal_line xs]"])
         (simp add: proposal_cell_def py_print_def)
  qed
qed

lemma obs_cell_eq:
  "\<exists>tg oid oids out. obs_cell ts w =
      (case obs_ids_loop (var_table w) ts [] of Inl err \<Rightarrow> Some err | Inr _ \<Rightarrow> None,
       w\<lparr>var_target := tg, var_obs_id := oid, var_obs_ids := oids,
         stdout := stdout w @ out\<rparr>) \<and>
     (\<forall>ids. obs_ids_loop (var_table w) ts [] = Inr ids \<longrightarrow> oids = ids)"
proof -
  from obs_cell_loop_eq [of ts "w\<lparr>var_obs_ids := []\<rparr>"]
  obtain tg oid oids where
    eq: "obs_cell_loop ts (w\<lparr>var_obs_ids := []\<rparr>) =
      (case obs_ids_loop (var_table w) ts [] of Inl err \<Rightarrow> Some err | Inr _ \<Rightarrow> None,
       w\<lparr>var_obs_ids := []\<rparr>\<lparr>var_target := tg, var_obs_id := oid, var_obs_ids := oids\<rparr>)"
    and ids: "\<forall>ids. obs_ids_loop (var_table w) ts [] = Inr ids \<longrightarrow> oids = ids"
    by auto
  show ?thesis
  proof (cases "obs_ids_loop (var_table w) ts []")
    case (Inl err)
    with eq ids show ?thesis
      by (intro exI [of _ tg] exI [of _ oid] exI [of _ oids] exI [of _ "[]"])
         (simp add: obs_cell_def)
  next
    case (Inr xs)
    with eq ids show ?thesis
      by (intro exI [of _ tg] exI [of _ oid] exI [of _ oids]
          exI [of _ "[Product_line (take 10 xs)]"])
         (simp add: obs_cell_def py_print_def)
  qed
qed

lemma table_cell_agree:
  assumes "\<forall>k<length (concat (map target_queries ts)).
             svc' (length (archive_calls w) + k) (concat (map target_queries ts) ! k) =
             svc (length (archive_calls w) + k) (concat (map target_queries ts) ! k)"
  shows "table_cell svc' ts w = table_cell svc ts w"
  using table_cell_loop_agree [of ts svc' "w\<lparr>var_table := Map.empty\<rparr>" svc] assms
  by (simp add: table_cell_def)

lemmas cell_simps = run_cells_def table_cell_def table_cell_body_def py_print_def
  proposal_cell_def obs_cell_def empty_notebook_def

lemma sample_cells:
  "run_cells sample_archive sample_catalog empty_notebook = (None, sample_notebook)"
  by (simp add: cell_simps run_simps sample_archive_def archive_of_def sample_rows_def
      sample_catalog_def sample_notebook_def sample_report_def target_queries_def
      target_criteria_def)

lemma sample_queries_length: "length (concat (map target_queries sample_catalog)) = 5"
  by (simp add: sample_catalog_def target_queries_def)

subsection \<open>Which records the identifier lists aggregate\<close>

text \<open>
  Claim C1, as amended. When the run produces a report, every candidate's number is a
  key of the stored dictionary, and \<open>proposal_ids\<close> and \<open>obs_ids\<close> aggregate the rows
  stored under the candidates' own numbers only: candidates in catalog order, the rows
  of a candidate in the stored order, each value kept at its first occurrence. The
  table stored under a number followed by \<^verbatim>\<open>"MOS"\<close> is not read: any dictionary that
  agrees with the stored one on the candidates' own numbers gives the same two lists.
\<close>

theorem ids_aggregate_own_sequences:
  assumes "make_catalog entries = Inr catalog"
    and "duplication_checks svc entries = (issued, Inr rep)"
  shows "(\<forall>t\<in>set catalog. table rep (number t) \<noteq> None) \<and>
         map Inr (proposal_ids rep) =
           first_occurrence_order (map (py_int \<circ> proposal_id) (own_rows (table rep) catalog)) \<and>
         obs_ids rep = first_occurrence_order (map obsid (own_rows (table rep) catalog)) \<and>
         (\<forall>tab'. (\<forall>t\<in>set catalog. tab' (number t) = table rep (number t)) \<longrightarrow>
            proposal_ids_loop tab' catalog [] = Inr (proposal_ids rep) \<and>
            obs_ids_loop tab' catalog [] = Inr (obs_ids rep))"
proof -
  from run_Inr [OF assms]
  have p: "proposal_ids_loop (table rep) catalog [] = Inr (proposal_ids rep)"
    and o: "obs_ids_loop (table rep) catalog [] = Inr (obs_ids rep)"
    by simp_all
  from proposal_ids_loop_Inr [OF p]
  have keys: "\<forall>t\<in>set catalog. table rep (number t) \<noteq> None"
    and ok: "\<forall>r\<in>set (own_rows (table rep) catalog). \<not> isl (py_int (proposal_id r))"
    by simp_all
  from proposal_ids_loop_ok [OF keys ok, of "[]"] p converted_first_occurrences [OF ok]
  have "map Inr (proposal_ids rep) =
      first_occurrence_order (map (py_int \<circ> proposal_id) (own_rows (table rep) catalog))"
    by (simp add: collect_Nil)
  moreover from obs_ids_loop_collect [OF keys, of "[]"] o
  have "obs_ids rep = first_occurrence_order (map obsid (own_rows (table rep) catalog))"
    by (simp add: collect_Nil)
  moreover have "\<forall>tab'. (\<forall>t\<in>set catalog. tab' (number t) = table rep (number t)) \<longrightarrow>
            proposal_ids_loop tab' catalog [] = Inr (proposal_ids rep) \<and>
            obs_ids_loop tab' catalog [] = Inr (obs_ids rep)"
  proof (intro allI impI)
    fix tab'
    assume same: "\<forall>t\<in>set catalog. tab' (number t) = table rep (number t)"
    from proposal_ids_loop_cong [OF same, of "[]"] obs_ids_loop_cong [OF same, of "[]"] p o
    show "proposal_ids_loop tab' catalog [] = Inr (proposal_ids rep) \<and>
          obs_ids_loop tab' catalog [] = Inr (obs_ids rep)"
      by simp
  qed
  ultimately show ?thesis using keys by blast
qed

text \<open>
  The statement at the notebook's catalog and the sample archive; replacing the table
  stored under \<^verbatim>\<open>"2MOS"\<close> changes neither list.
\<close>

theorem ids_aggregate_own_sequences_witness:
  "duplication_checks sample_archive input_catalog =
     (concat (map target_queries sample_catalog), Inr sample_report) \<and>
   map Inr (proposal_ids sample_report) =
     first_occurrence_order
       (map (py_int \<circ> proposal_id) (own_rows (table sample_report) sample_catalog)) \<and>
   obs_ids sample_report =
     first_occurrence_order (map obsid (own_rows (table sample_report) sample_catalog)) \<and>
   own_rows (table sample_report) sample_catalog = sample_rows \<and>
   proposal_ids_loop ((table sample_report)(''2MOS'' \<mapsto> unparsable_rows)) sample_catalog [] =
     Inr (proposal_ids sample_report) \<and>
   obs_ids_loop ((table sample_report)(''2MOS'' \<mapsto> unparsable_rows)) sample_catalog [] =
     Inr (obs_ids sample_report)"
  using ids_aggregate_own_sequences [OF sample_catalog_made sample_run] sample_run
  by (simp add: own_rows_def sample_report_def sample_catalog_def sample_rows_def
      py_int_def is_space_def is_digit_def literal_value_def digit_value_def)

text \<open>
  Claim C1 as stated fails. For the notebook's IFU target and an archive that holds a
  matching row of MOS data only, that row is stored under \<^verbatim>\<open>"2MOS"\<close>, its proposal ID
  converts to 1282, and neither its proposal ID nor its product group ID is aggregated:
  both lists are empty.
\<close>

theorem companion_rows_not_aggregated_counterexample:
  "table (projr (snd (duplication_checks (mos_archive_of sample_rows) [target2]))) ''2MOS'' =
     Some [\<lparr>proposal_id = ''1282'', obsid = ''86874766'', row_s_ra = 68.73, row_s_dec = 24.48,
             row_grating = ''G395H'', row_filters = ''F290LP'', row_t_exptime = 30\<rparr>] \<and>
   py_int ''1282'' = Inr 1282 \<and>
   \<not> isl (snd (duplication_checks (mos_archive_of sample_rows) [target2])) \<and>
   proposal_ids (projr (snd (duplication_checks (mos_archive_of sample_rows) [target2]))) = [] \<and>
   obs_ids (projr (snd (duplication_checks (mos_archive_of sample_rows) [target2]))) = []"
  by (simp add: run_simps catalog_simps mos_archive_of_def sample_rows_def)

subsection \<open>Queries issued per candidate\<close>

text \<open>
  Claim C2. For a catalog whose apertures resolve, the queries issued are, candidate by
  candidate in catalog order, exactly one query for a candidate whose mode is MSA and
  exactly two for any other; the second query is the first one with the instrument name
  replaced by the dictionary's entry for MSA, so its ranges of right ascension and
  declination, its grating, its filter and its range of exposure time are those of the
  first. The mode of a target is MSA exactly when the aperture of its catalog entry is
  \<^verbatim>\<open>"MSA"\<close>.
\<close>

theorem queries_per_candidate:
  assumes "make_catalog entries = Inr catalog"
  shows "fst (duplication_checks svc entries) =
           concat (map (\<lambda>t. if target_instrument_name t = ''NIRSPEC/MSA''
                             then [target_criteria t]
                             else [target_criteria t,
                                   (target_criteria t)\<lparr>q_instrument_name := ''NIRSPEC/MSA''\<rparr>])
                     catalog) \<and>
         map (\<lambda>t. target_instrument_name t = ''NIRSPEC/MSA'') catalog =
           map (\<lambda>e. entry_aperture e = ''MSA'') entries \<and>
         instrument_name ''MSA'' = Some ''NIRSPEC/MSA''"
proof -
  have "fst (duplication_checks svc entries) = concat (map target_queries catalog)"
    by (simp add: fst_duplication_checks [OF assms] snd_table_loop)
  moreover have "target_queries = (\<lambda>t. if target_instrument_name t = ''NIRSPEC/MSA''
       then [target_criteria t]
       else [target_criteria t, (target_criteria t)\<lparr>q_instrument_name := ''NIRSPEC/MSA''\<rparr>])"
    by (simp add: fun_eq_iff target_queries_def)
  moreover have "instrument_name ''MSA'' = Some ''NIRSPEC/MSA''"
    by (simp add: instrument_name_def)
  ultimately show ?thesis
    using make_catalog_modes [OF assms] by simp
qed

text \<open>The statement at a concrete input.\<close>

theorem queries_per_candidate_witness:
  "make_catalog input_catalog = Inr sample_catalog \<and>
   map q_instrument_name (fst (duplication_checks sample_archive input_catalog)) =
     [''NIRSPEC/MSA'', ''NIRSPEC/IFU'', ''NIRSPEC/MSA'', ''NIRSPEC/SLIT'', ''NIRSPEC/MSA''] \<and>
   map entry_aperture input_catalog = [''MSA'', ''IFU'', ''S200B1'']"
  using queries_per_candidate [OF sample_catalog_made, of sample_archive] sample_catalog_made
  by (simp add: target_criteria_def sample_catalog_def input_catalog_def target1_def
      target2_def target3_def)

subsection \<open>No duplicates, first-occurrence order\<close>

text \<open>
  Claim C3. For every dictionary of tables and every catalog, when the loop over the
  proposal IDs returns, its list has no duplicate and is the list of the integer
  conversions of the \<^verbatim>\<open>proposal_id\<close> fields traversed, each at its first occurrence;
  when the loop over the product group IDs returns, its list has no duplicate and is
  the list of the \<^verbatim>\<open>obsid\<close> fields traversed, as strings, each at its first occurrence.
\<close>

theorem ids_distinct_first_occurrence:
  "(proposal_ids_loop tab ts [] = Inr pids \<longrightarrow>
      distinct pids \<and>
      map Inr pids = first_occurrence_order (map (py_int \<circ> proposal_id) (own_rows tab ts))) \<and>
   (obs_ids_loop tab ts [] = Inr oids \<longrightarrow>
      distinct oids \<and> oids = first_occurrence_order (map obsid (own_rows tab ts)))"
proof (intro conjI impI)
  assume p: "proposal_ids_loop tab ts [] = Inr pids"
  from proposal_ids_loop_Inr [OF p]
  have keys: "\<forall>t\<in>set ts. tab (number t) \<noteq> None"
    and ok: "\<forall>r\<in>set (own_rows tab ts). \<not> isl (py_int (proposal_id r))"
    by simp_all
  from proposal_ids_loop_ok [OF keys ok, of "[]"] p
  have pids: "pids = first_occurrence_order
      (map (\<lambda>r. projr (py_int (proposal_id r))) (own_rows tab ts))"
    by (simp add: collect_Nil)
  then show "distinct pids" by simp
  from pids converted_first_occurrences [OF ok]
  show "map Inr pids = first_occurrence_order (map (py_int \<circ> proposal_id) (own_rows tab ts))"
    by simp
next
  assume o: "obs_ids_loop tab ts [] = Inr oids"
  from obs_ids_loop_collect [OF obs_ids_loop_Inr [OF o], of "[]"] o
  have oids: "oids = first_occurrence_order (map obsid (own_rows tab ts))"
    by (simp add: collect_Nil)
  then show "distinct oids" by simp
  from oids show "oids = first_occurrence_order (map obsid (own_rows tab ts))" .
qed

text \<open>The statement at a concrete input.\<close>

theorem ids_distinct_first_occurrence_witness:
  "proposal_ids_loop (table sample_report) sample_catalog [] = Inr [1180, 1207, 1282] \<and>
   obs_ids_loop (table sample_report) sample_catalog [] =
     Inr [''86864325'', ''86864326'', ''86864327'', ''86874766''] \<and>
   distinct [1180, 1207, 1282 :: int] \<and>
   first_occurrence_order
     (map (py_int \<circ> proposal_id) (own_rows (table sample_report) sample_catalog)) =
     [Inr 1180, Inr 1207, Inr 1282] \<and>
   map (py_int \<circ> proposal_id) (own_rows (table sample_report) sample_catalog) =
     [Inr 1180, Inr 1207, Inr 1180, Inr 1282]"
  using ids_distinct_first_occurrence [of "table sample_report" sample_catalog
      "[1180, 1207, 1282]" "[''86864325'', ''86864326'', ''86864327'', ''86874766'']"]
  by (simp add: own_rows_def sample_report_def sample_catalog_def sample_rows_def
      py_int_def is_space_def is_digit_def literal_value_def digit_value_def)

subsection \<open>Unknown apertures\<close>

text \<open>
  Claim C4. If the aperture of some catalog entry is not a key of the aperture
  dictionaries, the run ends with the \<open>KeyError\<close> of the failed lookup (the
  configuration error of the specification) and the list of queries issued is empty: the
  failure precedes every call of the archive service.
\<close>

theorem unknown_aperture_fails_before_any_query:
  assumes "e \<in> set entries"
    and "search_area (entry_aperture e) = None \<or> instrument_name (entry_aperture e) = None"
  shows "duplication_checks svc entries = ([], Inl KeyError)"
  using make_catalog_unknown [OF assms(1) make_target_unknown [OF assms(2)]]
  by (simp add: duplication_checks_def)

text \<open>The statement at a concrete input.\<close>

theorem unknown_aperture_fails_before_any_query_witness:
  "duplication_checks sample_archive [target1, target2\<lparr>entry_aperture := ''NRS_FULL_MSA''\<rparr>] =
     ([], Inl KeyError)"
  using unknown_aperture_fails_before_any_query
    [of "target2\<lparr>entry_aperture := ''NRS_FULL_MSA''\<rparr>"
        "[target1, target2\<lparr>entry_aperture := ''NRS_FULL_MSA''\<rparr>]" sample_archive]
  by (simp add: search_area_def)

subsection \<open>The scenario of one MSA target\<close>

text \<open>
  Claim C5. For a catalog of the one MSA target at right ascension 53.13 and declination
  -27.8 with grating G395H, filter F290LP and exposure time 950, whatever its number and
  whatever the service answers, exactly one query is issued; the search radius of MSA is
  180/360 = 0.5, the query's box is [52.63, 53.63] by [-28.3, -27.3] and its range of
  exposure time is [237.5, 3800].
\<close>

theorem single_msa_target_query:
  "search_area ''MSA'' = Some 0.5 \<and>
   fst (duplication_checks svc [target1\<lparr>entry_number := n\<rparr>]) =
     [\<lparr>q_instrument_name = ''NIRSPEC/MSA'', q_s_ra = (52.63, 53.63),
       q_s_dec = (- 28.3, - 27.3), q_grating = ''G395H'', q_filters = ''F290LP'',
       q_t_exptime = (237.5, 3800)\<rparr>]"
proof -
  have c: "make_catalog [target1\<lparr>entry_number := n\<rparr>] =
    Inr [\<lparr>number = n, RA = 53.13, DEC = - 27.8, grating = ''G395H'', filters = ''F290LP'',
      exposure_time = 950, target_search_area = 0.5,
      target_instrument_name = ''NIRSPEC/MSA''\<rparr>]"
    by (simp add: target1_def make_target_def search_area_def instrument_name_def mos_radius_def)
  show ?thesis
    unfolding fst_duplication_checks [OF c] snd_table_loop
    by (simp add: target_queries_def target_criteria_def search_area_def mos_radius_def)
qed

text \<open>The statement at a concrete input.\<close>

theorem single_msa_target_query_witness:
  "fst (duplication_checks sample_archive [target1]) =
     [\<lparr>q_instrument_name = ''NIRSPEC/MSA'', q_s_ra = (52.63, 53.63),
       q_s_dec = (- 28.3, - 27.3), q_grating = ''G395H'', q_filters = ''F290LP'',
       q_t_exptime = (237.5, 3800)\<rparr>]"
  using single_msa_target_query [of sample_archive "''1''"]
  by (simp add: target1_def)

subsection \<open>Bounds on the rows surfaced for a candidate\<close>

text \<open>
  Claim C6. Assume the archive service honors the criteria of every query. Then, after
  the iteration of the loop for a candidate, every row of the table stored under its
  number, and for a candidate that is not MSA every row of the table stored under its
  number followed by \<^verbatim>\<open>"MOS"\<close>, lies within the candidate's search radius of its right
  ascension and of its declination, has its grating and its filter, and has an
  exposure time between a quarter and four times the candidate's.
\<close>

theorem surfaced_rows_within_bounds:
  assumes "\<forall>k q. \<forall>r\<in>set (svc k q). honors q r"
    and "fst (table_loop svc (pre @ [t]) (Map.empty, [])) (number t) = Some rows \<or>
         target_instrument_name t \<noteq> ''NIRSPEC/MSA'' \<and>
         fst (table_loop svc (pre @ [t]) (Map.empty, [])) (number t @ ''MOS'') = Some rows"
    and "r \<in> set rows"
  shows "RA t - target_search_area t \<le> row_s_ra r \<and> row_s_ra r \<le> RA t + target_search_area t \<and>
         DEC t - target_search_area t \<le> row_s_dec r \<and> row_s_dec r \<le> DEC t + target_search_area t \<and>
         row_grating r = grating t \<and> row_filters r = filters t \<and>
         exposure_time t / 4 \<le> row_t_exptime r \<and> row_t_exptime r \<le> exposure_time t * 4"
proof -
  obtain tab0 issued0 where pre: "table_loop svc pre (Map.empty, []) = (tab0, issued0)"
    by (cases "table_loop svc pre (Map.empty, [])")
  from assms(2) stored_after_target [OF pre, of t]
  have "rows = svc (length issued0) (target_criteria t) \<or>
        rows = svc (Suc (length issued0))
                 ((target_criteria t)\<lparr>q_instrument_name := ''NIRSPEC/MSA''\<rparr>)"
    by auto
  with assms(1,3)
  have "honors (target_criteria t) r \<or>
        honors ((target_criteria t)\<lparr>q_instrument_name := ''NIRSPEC/MSA''\<rparr>) r"
    by auto
  then show ?thesis
    by (auto simp: honors_def target_criteria_def)
qed

text \<open>The statement at a concrete input.\<close>

theorem surfaced_rows_within_bounds_witness:
  "fst (table_loop sample_archive (take 1 sample_catalog @ [sample_catalog ! 1]) (Map.empty, []))
     ''2MOS'' = Some (drop 3 sample_rows) \<and>
   sample_rows ! 3 \<in> set (drop 3 sample_rows) \<and>
   RA (sample_catalog ! 1) - target_search_area (sample_catalog ! 1) \<le> row_s_ra (sample_rows ! 3) \<and>
   row_s_ra (sample_rows ! 3) \<le> RA (sample_catalog ! 1) + target_search_area (sample_catalog ! 1) \<and>
   row_grating (sample_rows ! 3) = grating (sample_catalog ! 1) \<and>
   exposure_time (sample_catalog ! 1) / 4 \<le> row_t_exptime (sample_rows ! 3) \<and>
   row_t_exptime (sample_rows ! 3) \<le> exposure_time (sample_catalog ! 1) * 4"
  using surfaced_rows_within_bounds [OF sample_archive_honors,
      of "take 1 sample_catalog" "sample_catalog ! 1" "drop 3 sample_rows" "sample_rows ! 3"]
  by (simp add: table_body_def query_criteria_def Let_def honors_def sample_archive_def archive_of_def
      sample_catalog_def sample_rows_def)

subsection \<open>Rows are stored as the service returned them\<close>

text \<open>
  Claim C7, as amended. When the run produces a report, the queries were issued
  candidate by candidate in catalog order, and for a candidate none of whose later
  candidates assigns its number as a key, the report holds under its number the list
  the service returned to its query, unchanged and in the same order. For a candidate
  that is not MSA the key of its number followed by \<^verbatim>\<open>"MOS"\<close> differs from its number,
  and, when no later candidate assigns that key, the report holds under it the list
  returned to the query for MOS data. Every table of the report is the answer to one
  of the queries issued, as returned: nothing is reordered, filtered or merged.
\<close>

theorem rows_kept_as_returned:
  assumes "make_catalog entries = Inr (pre @ t # post)"
    and "duplication_checks svc entries = (issued, Inr rep)"
  shows "issued = concat (map target_queries (pre @ t # post)) \<and>
         ((\<forall>u\<in>set post. number t \<notin> set (target_keys u)) \<longrightarrow>
            table rep (number t) =
              Some (svc (length (concat (map target_queries pre))) (target_criteria t))) \<and>
         (target_instrument_name t \<noteq> ''NIRSPEC/MSA'' \<longrightarrow>
            number t @ ''MOS'' \<noteq> number t \<and>
            ((\<forall>u\<in>set post. number t @ ''MOS'' \<notin> set (target_keys u)) \<longrightarrow>
               table rep (number t @ ''MOS'') =
                 Some (svc (Suc (length (concat (map target_queries pre))))
                        ((target_criteria t)\<lparr>q_instrument_name := ''NIRSPEC/MSA''\<rparr>)))) \<and>
         (\<forall>key rows. table rep key = Some rows \<longrightarrow>
            (\<exists>k<length issued. rows = svc k (issued ! k)))"
proof -
  let ?init = "(Map.empty, []) :: obs_table \<times> criteria list"
  from run_Inr [OF assms]
  have tl: "table_loop svc (pre @ t # post) ?init = (table rep, issued)" by simp
  obtain tab0 issued0 where pre: "table_loop svc pre ?init = (tab0, issued0)"
    by (cases "table_loop svc pre ?init")
  from snd_table_loop [of svc pre Map.empty "[]"] pre
  have issued0: "issued0 = concat (map target_queries pre)" by simp
  from snd_table_loop [of svc "pre @ t # post" Map.empty "[]"] tl
  have issued: "issued = concat (map target_queries (pre @ t # post))" by simp
  have final: "table rep key = fst (table_loop svc (pre @ [t]) ?init) key"
    if "\<forall>u\<in>set post. key \<notin> set (target_keys u)" for key
    using table_loop_other_keys [OF that, of svc "table_loop svc (pre @ [t]) ?init"] tl
      table_loop_split [of svc pre t post ?init]
    by simp
  have own: "(\<forall>u\<in>set post. number t \<notin> set (target_keys u)) \<longrightarrow>
      table rep (number t) =
        Some (svc (length (concat (map target_queries pre))) (target_criteria t))"
    using final [of "number t"] stored_after_target(1) [OF pre, of t] issued0 by simp
  have companion: "target_instrument_name t \<noteq> ''NIRSPEC/MSA'' \<longrightarrow>
      number t @ ''MOS'' \<noteq> number t \<and>
      ((\<forall>u\<in>set post. number t @ ''MOS'' \<notin> set (target_keys u)) \<longrightarrow>
         table rep (number t @ ''MOS'') =
           Some (svc (Suc (length (concat (map target_queries pre))))
                  ((target_criteria t)\<lparr>q_instrument_name := ''NIRSPEC/MSA''\<rparr>)))"
    using final [of "number t @ ''MOS''"] stored_after_target(2) [OF pre, of t] issued0
    by simp
  have "verbatim svc (table_loop svc (pre @ t # post) ?init)"
    by (rule verbatim_loop [OF verbatim_init])
  with tl have "\<forall>key rows. table rep key = Some rows \<longrightarrow>
      (\<exists>k<length issued. rows = svc k (issued ! k))"
    by (simp add: verbatim_def)
  with issued own companion show ?thesis by blast
qed

text \<open>The statement at the notebook's catalog, for its second target.\<close>

theorem rows_kept_as_returned_witness:
  "make_catalog input_catalog =
     Inr (take 1 sample_catalog @ sample_catalog ! 1 # drop 2 sample_catalog) \<and>
   duplication_checks sample_archive input_catalog =
     (concat (map target_queries sample_catalog), Inr sample_report) \<and>
   table sample_report ''2'' =
     Some (sample_archive (length (concat (map target_queries (take 1 sample_catalog))))
            (target_criteria (sample_catalog ! 1))) \<and>
   table sample_report ''2MOS'' =
     Some (sample_archive (Suc (length (concat (map target_queries (take 1 sample_catalog)))))
            ((target_criteria (sample_catalog ! 1))\<lparr>q_instrument_name := ''NIRSPEC/MSA''\<rparr>)) \<and>
   table sample_report ''2'' = Some (drop 3 sample_rows)"
  using rows_kept_as_returned [of input_catalog "take 1 sample_catalog" "sample_catalog ! 1"
      "drop 2 sample_catalog" sample_archive "concat (map target_queries sample_catalog)"
      sample_report] sample_run sample_catalog_made
  by (simp add: sample_catalog_def target_keys_def sample_report_def sample_rows_def
      sample_archive_def archive_of_def honors_def target_criteria_def target_queries_def)

text \<open>
  Claim C7 as stated fails when keys collide. For two candidates with the number
  \<^verbatim>\<open>"1"\<close>, the service returns three rows to the first candidate's query, the first
  query issued, and the report holds under \<^verbatim>\<open>"1"\<close> the one row returned to the second
  candidate's query.
\<close>

theorem colliding_rows_replaced_counterexample:
  "make_catalog [target1, target1\<lparr>entry_RA := 68.73, entry_DEC := 24.48, entry_exposure_time := 30\<rparr>] =
     Inr [sample_catalog ! 0, (sample_catalog ! 0)\<lparr>RA := 68.73, DEC := 24.48, exposure_time := 30\<rparr>] \<and>
   fst (duplication_checks sample_archive
          [target1, target1\<lparr>entry_RA := 68.73, entry_DEC := 24.48, entry_exposure_time := 30\<rparr>]) ! 0 =
     target_criteria (sample_catalog ! 0) \<and>
   sample_archive 0 (target_criteria (sample_catalog ! 0)) = take 3 sample_rows \<and>
   \<not> isl (snd (duplication_checks sample_archive
          [target1, target1\<lparr>entry_RA := 68.73, entry_DEC := 24.48, entry_exposure_time := 30\<rparr>])) \<and>
   table (projr (snd (duplication_checks sample_archive
          [target1, target1\<lparr>entry_RA := 68.73, entry_DEC := 24.48, entry_exposure_time := 30\<rparr>])))
     ''1'' = Some (drop 3 sample_rows)"
  by (simp add: run_simps catalog_simps sample_archive_def archive_of_def sample_rows_def
      sample_catalog_def target_criteria_def)

subsection \<open>What the cells change\<close>

text \<open>
  Claim C8, as amended. The run of the three cells changes the notebook's state in the
  variables \<^verbatim>\<open>table\<close>, \<^verbatim>\<open>target\<close>, \<^verbatim>\<open>key\<close>, \<^verbatim>\<open>proposal_ids\<close>, \<^verbatim>\<open>proposal_id\<close>,
  \<^verbatim>\<open>obs_ids\<close> and \<^verbatim>\<open>obs_id\<close> only, appends to the output, and sends the archive the
  queries of the candidates in catalog order and nothing else; the rest of the state is
  as before. A second service that gives, call by call, the same answers to these
  queries leads from the same state to the same outcome and the same state. When no
  query was sent before, the outcome and the variables \<^verbatim>\<open>table\<close>, \<^verbatim>\<open>proposal_ids\<close> and
  \<^verbatim>\<open>obs_ids\<close> are the result of \<open>duplication_checks\<close>.
\<close>

theorem cells_change_only_their_variables:
  assumes "run_cells svc catalog w = (e, w')"
  shows "(\<exists>tab tg k pids pid oids oid out.
            w' = w\<lparr>var_table := tab, var_target := tg, var_key := k,
                   var_proposal_ids := pids, var_proposal_id := pid,
                   var_obs_ids := oids, var_obs_id := oid,
                   stdout := stdout w @ out,
                   archive_calls := archive_calls w @ concat (map target_queries catalog)\<rparr>) \<and>
         ((\<forall>k<length (concat (map target_queries catalog)).
             svc2 (length (archive_calls w) + k) (concat (map target_queries catalog) ! k) =
             svc (length (archive_calls w) + k) (concat (map target_queries catalog) ! k)) \<longrightarrow>
            run_cells svc2 catalog w = (e, w')) \<and>
         (make_catalog entries = Inr catalog \<and> archive_calls w = [] \<longrightarrow>
            duplication_checks svc entries =
              (archive_calls w',
               case e of
                 None \<Rightarrow> Inr \<lparr>table = var_table w', proposal_ids = var_proposal_ids w',
                              obs_ids = var_obs_ids w'\<rparr>
               | Some err \<Rightarrow> Inl err))"
proof (intro conjI)
  show "(\<forall>k<length (concat (map target_queries catalog)).
             svc2 (length (archive_calls w) + k) (concat (map target_queries catalog) ! k) =
             svc (length (archive_calls w) + k) (concat (map target_queries catalog) ! k)) \<longrightarrow>
        run_cells svc2 catalog w = (e, w')"
    using assms by (auto simp: run_cells_def dest: table_cell_agree)
next
  let ?tab = "fst (table_loop svc catalog (Map.empty, archive_calls w))"
  let ?calls = "archive_calls w @ concat (map target_queries catalog)"
  have tl: "snd (table_loop svc catalog (Map.empty, archive_calls w)) = ?calls"
    by (rule snd_table_loop)
  from table_cell_eq [of svc catalog w] obtain tg1 k1 out1 where
    t: "table_cell svc catalog w =
      (None, w\<lparr>var_target := tg1, var_key := k1, var_table := ?tab,
               archive_calls := ?calls, stdout := stdout w @ out1\<rparr>)"
    by blast
  let ?w1 = "w\<lparr>var_target := tg1, var_key := k1, var_table := ?tab,
               archive_calls := ?calls, stdout := stdout w @ out1\<rparr>"
  from proposal_cell_eq [of catalog ?w1] obtain tg2 pid pids out2 where
    p: "proposal_cell catalog ?w1 =
      (case proposal_ids_loop ?tab catalog [] of Inl err \<Rightarrow> Some err | Inr _ \<Rightarrow> None,
       ?w1\<lparr>var_target := tg2, var_proposal_id := pid, var_proposal_ids := pids,
         stdout := stdout ?w1 @ out2\<rparr>)"
    and pids: "\<forall>ids. proposal_ids_loop ?tab catalog [] = Inr ids \<longrightarrow> pids = ids"
    by auto
  let ?w2 = "?w1\<lparr>var_target := tg2, var_proposal_id := pid, var_proposal_ids := pids,
         stdout := stdout ?w1 @ out2\<rparr>"
  from obs_cell_eq [of catalog ?w2] obtain tg3 oid oids out3 where
    o: "obs_cell catalog ?w2 =
      (case obs_ids_loop ?tab catalog [] of Inl err \<Rightarrow> Some err | Inr _ \<Rightarrow> None,
       ?w2\<lparr>var_target := tg3, var_obs_id := oid, var_obs_ids := oids,
         stdout := stdout ?w2 @ out3\<rparr>)"
    and oids: "\<forall>ids. obs_ids_loop ?tab catalog [] = Inr ids \<longrightarrow> oids = ids"
    by auto
  let ?w3 = "?w2\<lparr>var_target := tg3, var_obs_id := oid, var_obs_ids := oids,
         stdout := stdout ?w2 @ out3\<rparr>"
  consider (pfail) err where "proposal_ids_loop ?tab catalog [] = Inl err"
      "e = Some err" "w' = ?w2"
    | (ofail) ids err where "proposal_ids_loop ?tab catalog [] = Inr ids"
      "obs_ids_loop ?tab catalog [] = Inl err" "e = Some err" "w' = ?w3" "pids = ids"
    | (ok) ids xs where "proposal_ids_loop ?tab catalog [] = Inr ids"
      "obs_ids_loop ?tab catalog [] = Inr xs" "e = None" "w' = ?w3" "pids = ids" "oids = xs"
  proof (cases "proposal_ids_loop ?tab catalog []")
    case (Inl err)
    with assms t p have "e = Some err" "w' = ?w2" by (simp_all add: run_cells_def)
    with Inl pfail show ?thesis by blast
  next
    case pr: (Inr ids)
    show ?thesis
    proof (cases "obs_ids_loop ?tab catalog []")
      case (Inl err)
      with assms t p o pr have "e = Some err" "w' = ?w3" by (simp_all add: run_cells_def)
      with Inl pr pids ofail show ?thesis by blast
    next
      case (Inr xs)
      with assms t p o pr have "e = None" "w' = ?w3" by (simp_all add: run_cells_def)
      with Inr pr pids oids ok show ?thesis by blast
    qed
  qed
  note cases = this
  show "\<exists>tab tg k pids pid oids oid out.
            w' = w\<lparr>var_table := tab, var_target := tg, var_key := k,
                   var_proposal_ids := pids, var_proposal_id := pid,
                   var_obs_ids := oids, var_obs_id := oid,
                   stdout := stdout w @ out,
                   archive_calls := archive_calls w @ concat (map target_queries catalog)\<rparr>"
  proof (cases rule: cases)
    case pfail
    then show ?thesis
      by (intro exI [of _ ?tab] exI [of _ tg2] exI [of _ k1] exI [of _ pids] exI [of _ pid]
          exI [of _ "var_obs_ids w"] exI [of _ "var_obs_id w"] exI [of _ "out1 @ out2"]) simp
  next
    case ofail
    then show ?thesis
      by (intro exI [of _ ?tab] exI [of _ tg3] exI [of _ k1] exI [of _ pids] exI [of _ pid]
          exI [of _ oids] exI [of _ oid] exI [of _ "out1 @ out2 @ out3"]) simp
  next
    case ok
    then show ?thesis
      by (intro exI [of _ ?tab] exI [of _ tg3] exI [of _ k1] exI [of _ pids] exI [of _ pid]
          exI [of _ oids] exI [of _ oid] exI [of _ "out1 @ out2 @ out3"]) simp
  qed
  show "make_catalog entries = Inr catalog \<and> archive_calls w = [] \<longrightarrow>
            duplication_checks svc entries =
              (archive_calls w',
               case e of
                 None \<Rightarrow> Inr \<lparr>table = var_table w', proposal_ids = var_proposal_ids w',
                              obs_ids = var_obs_ids w'\<rparr>
               | Some err \<Rightarrow> Inl err)"
  proof (cases rule: cases)
    case pfail
    with tl show ?thesis by (auto simp: duplication_checks_def split: prod.splits)
  next
    case ofail
    with tl show ?thesis by (auto simp: duplication_checks_def split: prod.splits)
  next
    case ok
    with tl show ?thesis by (auto simp: duplication_checks_def split: prod.splits)
  qed
qed

text \<open>
  The statement at the notebook's catalog and the sample archive, with a second service
  that differs from the first one only after the fifth call.
\<close>

theorem cells_change_only_their_variables_witness:
  "run_cells sample_archive sample_catalog empty_notebook = (None, sample_notebook) \<and>
   other_state sample_notebook = other_state empty_notebook \<and>
   run_cells (\<lambda>k q. if k < 5 then sample_archive k q else []) sample_catalog empty_notebook =
     (None, sample_notebook) \<and>
   (\<lambda>k q. if k < 5 then sample_archive k q else []) 5 (target_criteria (sample_catalog ! 0)) \<noteq>
     sample_archive 5 (target_criteria (sample_catalog ! 0)) \<and>
   duplication_checks sample_archive input_catalog =
     (archive_calls sample_notebook,
      Inr \<lparr>table = var_table sample_notebook,
           proposal_ids = var_proposal_ids sample_notebook,
           obs_ids = var_obs_ids sample_notebook\<rparr>)"
proof -
  have differ: "(\<lambda>k q. if k < 5 then sample_archive k q else []) 5
      (target_criteria (sample_catalog ! 0)) \<noteq>
      sample_archive 5 (target_criteria (sample_catalog ! 0))"
    by (simp add: sample_archive_def archive_of_def sample_rows_def honors_def
        target_criteria_def sample_catalog_def)
  have calls: "archive_calls empty_notebook = []"
    by (simp add: empty_notebook_def)
  have other: "other_state sample_notebook = other_state empty_notebook"
    by simp
  from cells_change_only_their_variables [OF sample_cells,
      of "\<lambda>k q. if k < 5 then sample_archive k q else []" input_catalog]
    sample_catalog_made calls sample_queries_length
  have "run_cells (\<lambda>k q. if k < 5 then sample_archive k q else []) sample_catalog
          empty_notebook = (None, sample_notebook) \<and>
        duplication_checks sample_archive input_catalog =
          (archive_calls sample_notebook,
           Inr \<lparr>table = var_table sample_notebook,
                proposal_ids = var_proposal_ids sample_notebook,
                obs_ids = var_obs_ids sample_notebook\<rparr>)"
    by simp
  with sample_cells differ other show ?thesis by blast
qed

text \<open>
  Claim C8 as stated fails in its second half: local state other than the report is
  changed. In a notebook in which nothing was run yet, the run on the notebook's first
  target leaves \<^verbatim>\<open>key\<close>, \<^verbatim>\<open>proposal_id\<close> and \<^verbatim>\<open>obs_id\<close> bound to new values and has
  written five items to the output.
\<close>

theorem cells_rebind_and_print_counterexample:
  "fst (run_cells sample_archive [sample_catalog ! 0] empty_notebook) = None \<and>
   var_key empty_notebook = [] \<and>
   var_key (snd (run_cells sample_archive [sample_catalog ! 0] empty_notebook)) = ''1'' \<and>
   var_proposal_id (snd (run_cells sample_archive [sample_catalog ! 0] empty_notebook)) = ''1180'' \<and>
   var_obs_id (snd (run_cells sample_archive [sample_catalog ! 0] empty_notebook)) = ''86864327'' \<and>
   stdout empty_notebook = [] \<and>
   stdout (snd (run_cells sample_archive [sample_catalog ! 0] empty_notebook)) =
     [Heading ''1'', Rows (take 3 sample_rows), Blank, Proposal_line [1180, 1207],
      Product_line [''86864325'', ''86864326'', ''86864327'']]"
  by (simp add: cell_simps run_simps sample_archive_def archive_of_def sample_rows_def
      sample_catalog_def)

subsection \<open>Proposal IDs that are not integers\<close>

text \<open>
  Claim C9, as amended. If a row of the table stored under a candidate's own number has
  a \<^verbatim>\<open>proposal_id\<close> on which the integer conversion fails, the run ends with
  \<open>ValueError\<close> and produces no report. If the conversion succeeds on every row of the
  tables stored under the candidates' own numbers, the run produces a report, whatever
  the other tables hold: a row surfaced only under a number followed by \<^verbatim>\<open>"MOS"\<close> is
  not converted.
\<close>

theorem unparsable_own_record_raises:
  assumes "make_catalog entries = Inr catalog"
    and "table_loop svc catalog (Map.empty, []) = (tab, issued)"
  shows "(t \<in> set catalog \<and> tab (number t) = Some rows \<and> r \<in> set rows \<and>
          py_int (proposal_id r) = Inl ValueError \<longrightarrow>
            duplication_checks svc entries = (issued, Inl ValueError)) \<and>
         ((\<forall>u\<in>set catalog. \<forall>urows. tab (number u) = Some urows \<longrightarrow>
             (\<forall>x\<in>set urows. py_int (proposal_id x) \<noteq> Inl ValueError)) \<longrightarrow>
            (\<exists>rep. duplication_checks svc entries = (issued, Inr rep) \<and> table rep = tab))"
proof (intro conjI impI)
  assume a: "t \<in> set catalog \<and> tab (number t) = Some rows \<and> r \<in> set rows \<and>
          py_int (proposal_id r) = Inl ValueError"
  then have "r \<in> set (own_rows tab catalog)"
    using own_rows_member [of t catalog tab rows r] by simp
  with a have "\<exists>r\<in>set (own_rows tab catalog). isl (py_int (proposal_id r))" by force
  from run_fail [OF assms this]
  show "duplication_checks svc entries = (issued, Inl ValueError)" .
next
  assume a: "\<forall>u\<in>set catalog. \<forall>urows. tab (number u) = Some urows \<longrightarrow>
             (\<forall>x\<in>set urows. py_int (proposal_id x) \<noteq> Inl ValueError)"
  have "\<forall>r\<in>set (own_rows tab catalog). \<not> isl (py_int (proposal_id r))"
  proof
    fix r assume "r \<in> set (own_rows tab catalog)"
    from own_rows_elem [OF this]
    obtain u urows where "u \<in> set catalog" "tab (number u) = Some urows" "r \<in> set urows"
      by blast
    with a have "py_int (proposal_id r) \<noteq> Inl ValueError" by blast
    then show "\<not> isl (py_int (proposal_id r))"
      using py_int_error [of "proposal_id r"] by (cases "py_int (proposal_id r)") auto
  qed
  from run_ok [OF assms this]
  show "\<exists>rep. duplication_checks svc entries = (issued, Inr rep) \<and> table rep = tab"
    by simp
qed

text \<open>
  Both branches are reachable: for the notebook's IFU target, an archive whose matching
  row has the proposal ID \<^verbatim>\<open>"N/A"\<close> makes the run raise, and an archive that holds this
  row as MOS data only does not.
\<close>

theorem unparsable_own_record_raises_witness:
  "py_int (proposal_id (hd unparsable_rows)) = Inl ValueError \<and>
   fst (table_loop (archive_of unparsable_rows) [sample_catalog ! 1] (Map.empty, [])) ''2'' =
     Some unparsable_rows \<and>
   snd (duplication_checks (archive_of unparsable_rows) [target2]) = Inl ValueError \<and>
   fst (table_loop (mos_archive_of unparsable_rows) [sample_catalog ! 1] (Map.empty, [])) =
     [''2'' \<mapsto> [], ''2MOS'' \<mapsto> unparsable_rows] \<and>
   \<not> isl (snd (duplication_checks (mos_archive_of unparsable_rows) [target2]))"
  using unparsable_own_record_raises [of "[target2]" "[sample_catalog ! 1]"
      "archive_of unparsable_rows"
      "fst (table_loop (archive_of unparsable_rows) [sample_catalog ! 1] (Map.empty, []))"
      "snd (table_loop (archive_of unparsable_rows) [sample_catalog ! 1] (Map.empty, []))"
      "sample_catalog ! 1" unparsable_rows "hd unparsable_rows"]
    unparsable_own_record_raises [of "[target2]" "[sample_catalog ! 1]"
      "mos_archive_of unparsable_rows"
      "fst (table_loop (mos_archive_of unparsable_rows) [sample_catalog ! 1] (Map.empty, []))"
      "snd (table_loop (mos_archive_of unparsable_rows) [sample_catalog ! 1] (Map.empty, []))"
      "sample_catalog ! 1" unparsable_rows "hd unparsable_rows"]
  by (simp add: run_simps catalog_simps archive_of_def mos_archive_of_def unparsable_rows_def
      sample_catalog_def)

text \<open>
  Claim C9 as stated fails for rows surfaced in a companion table only. For the
  notebook's IFU target and an archive that holds the row with the proposal ID
  \<^verbatim>\<open>"N/A"\<close> as MOS data only, the row is stored under \<^verbatim>\<open>"2MOS"\<close>, its conversion
  fails, and the run raises nothing: it produces a report with no proposal ID.
\<close>

theorem unparsable_companion_record_counterexample:
  "table (projr (snd (duplication_checks (mos_archive_of unparsable_rows) [target2]))) ''2MOS'' =
     Some [\<lparr>proposal_id = ''N/A'', obsid = ''86874770'', row_s_ra = 68.73, row_s_dec = 24.48,
             row_grating = ''G395H'', row_filters = ''F290LP'', row_t_exptime = 30\<rparr>] \<and>
   py_int ''N/A'' = Inl ValueError \<and>
   \<not> isl (snd (duplication_checks (mos_archive_of unparsable_rows) [target2])) \<and>
   proposal_ids (projr (snd (duplication_checks (mos_archive_of unparsable_rows) [target2]))) = []"
  by (simp add: run_simps catalog_simps mos_archive_of_def unparsable_rows_def)

subsection \<open>Colliding keys\<close>

text \<open>
  Claim C10. The keys of the dictionary of tables need not be distinct. In a catalog of
  two candidates, the first iteration stores the answer to the first candidate's query
  under its number (and, when it is not MSA, the answer to its query for MOS data under
  its number followed by \<^verbatim>\<open>"MOS"\<close>). If the second candidate has the same number, the
  entry under that number is afterwards the answer to the second candidate's query; if
  the first is not MSA and the second candidate's number is the first's followed by
  \<^verbatim>\<open>"MOS"\<close>, the entry under that key is afterwards the answer to the second
  candidate's query. In both cases the dictionary ends with fewer entries than queries
  were issued.
\<close>

theorem colliding_keys_overwrite:
  assumes "table_loop svc [t1, t2] (Map.empty, []) = (tab, issued)"
  shows "fst (table_loop svc [t1] (Map.empty, [])) (number t1) = Some (svc 0 (target_criteria t1)) \<and>
         (number t2 = number t1 \<longrightarrow>
            tab (number t1) = Some (svc (length (target_queries t1)) (target_criteria t2)) \<and>
            card (dom tab) < length issued) \<and>
         (target_instrument_name t1 \<noteq> ''NIRSPEC/MSA'' \<longrightarrow>
            fst (table_loop svc [t1] (Map.empty, [])) (number t1 @ ''MOS'') =
              Some (svc 1 ((target_criteria t1)\<lparr>q_instrument_name := ''NIRSPEC/MSA''\<rparr>)) \<and>
            (number t2 = number t1 @ ''MOS'' \<longrightarrow>
               tab (number t1 @ ''MOS'') = Some (svc 2 (target_criteria t2)) \<and>
               card (dom tab) < length issued))"
proof (cases "target_instrument_name t1 = ''NIRSPEC/MSA''";
       cases "target_instrument_name t2 = ''NIRSPEC/MSA''")
  assume "target_instrument_name t1 = ''NIRSPEC/MSA''" "target_instrument_name t2 = ''NIRSPEC/MSA''"
  with assms show ?thesis
    by (auto simp: table_body_msa table_body_other target_queries_def numeral_2_eq_2)
next
  assume "target_instrument_name t1 = ''NIRSPEC/MSA''" "target_instrument_name t2 \<noteq> ''NIRSPEC/MSA''"
  with assms show ?thesis
    by (auto simp: table_body_msa table_body_other target_queries_def numeral_2_eq_2)
next
  assume "target_instrument_name t1 \<noteq> ''NIRSPEC/MSA''" "target_instrument_name t2 = ''NIRSPEC/MSA''"
  with assms show ?thesis
    by (auto simp: table_body_msa table_body_other target_queries_def numeral_2_eq_2)
next
  assume "target_instrument_name t1 \<noteq> ''NIRSPEC/MSA''" "target_instrument_name t2 \<noteq> ''NIRSPEC/MSA''"
  with assms show ?thesis
    by (auto simp: table_body_msa table_body_other target_queries_def numeral_2_eq_2 card_insert_if)
qed

text \<open>
  Both collisions at concrete catalogs: an entry that held three rows holds one
  afterwards, and an entry that held one row holds three.
\<close>

theorem colliding_keys_overwrite_witness:
  "fst (table_loop sample_archive [sample_catalog ! 0] (Map.empty, [])) ''1'' =
     Some (take 3 sample_rows) \<and>
   fst (table_loop sample_archive
          [sample_catalog ! 0, (sample_catalog ! 0)\<lparr>RA := 68.73, DEC := 24.48, exposure_time := 30\<rparr>]
          (Map.empty, [])) ''1'' = Some (drop 3 sample_rows) \<and>
   fst (table_loop sample_archive [sample_catalog ! 1] (Map.empty, [])) ''2MOS'' =
     Some (drop 3 sample_rows) \<and>
   fst (table_loop sample_archive
          [sample_catalog ! 1, (sample_catalog ! 0)\<lparr>number := ''2MOS''\<rparr>]
          (Map.empty, [])) ''2MOS'' = Some (take 3 sample_rows) \<and>
   card (dom (fst (table_loop sample_archive
          [sample_catalog ! 1, (sample_catalog ! 0)\<lparr>number := ''2MOS''\<rparr>]
          (Map.empty, [])))) = 2 \<and>
   length (snd (table_loop sample_archive
          [sample_catalog ! 1, (sample_catalog ! 0)\<lparr>number := ''2MOS''\<rparr>]
          (Map.empty, []))) = 3"
  using colliding_keys_overwrite [of sample_archive "sample_catalog ! 0"
      "(sample_catalog ! 0)\<lparr>RA := 68.73, DEC := 24.48, exposure_time := 30\<rparr>"
      "fst (table_loop sample_archive
          [sample_catalog ! 0, (sample_catalog ! 0)\<lparr>RA := 68.73, DEC := 24.48, exposure_time := 30\<rparr>]
          (Map.empty, []))"
      "snd (table_loop sample_archive
          [sample_catalog ! 0, (sample_catalog ! 0)\<lparr>RA := 68.73, DEC := 24.48, exposure_time := 30\<rparr>]
          (Map.empty, []))"]
    colliding_keys_overwrite [of sample_archive "sample_catalog ! 1"
      "(sample_catalog ! 0)\<lparr>number := ''2MOS''\<rparr>"
      "fst (table_loop sample_archive
          [sample_catalog ! 1, (sample_catalog ! 0)\<lparr>number := ''2MOS''\<rparr>] (Map.empty, []))"
      "snd (table_loop sample_archive
          [sample_catalog ! 1, (sample_catalog ! 0)\<lparr>number := ''2MOS''\<rparr>] (Map.empty, []))"]
  by (simp add: table_body_def query_criteria_def Let_def honors_def sample_archive_def archive_of_def
      sample_catalog_def sample_rows_def target_criteria_def)

end
